theory Spec2Isabelle
  imports Complex_Main "HOL-Library.Multiset" "HOL-Library.Char_ord" "HOL-Library.List_Lexorder"
begin

section \<open>Data model\<close>

text \<open>
  The entitlement and usage-metering core of the billing platform: the grant resolver
  (\<open>GrantsManager\<close>) and the entitlement service (\<open>EntitlementService\<close>).
  Timestamps, limits and priorities are JavaScript numbers that hold integers (epoch
  milliseconds, unit counts); they are modelled as \<open>int\<close>. Usage counters are decimal
  strings read with \<open>Number(...)\<close> and written with \<open>toString()\<close>; they are modelled
  by the rational number they denote.
\<close>

datatype FeatureType = Flat | Tier | Package | Usage

datatype UsageMode = ModeTier | ModeUnit | ModePackage

datatype EntitlementMergingPolicy = PolicySum | PolicyMax | PolicyMin | PolicyReplace

datatype OverageStrategy = OverageNone | OverageLastCall | OverageAlways

datatype AggregationMethod =
  AggNone | AggSum | AggCount | AggMax | AggLastDuringPeriod | AggSumAll | AggCountAll | AggMaxAll

datatype Behavior = BehaviorNone | BehaviorSum | BehaviorMax | BehaviorLast

datatype Scope = Period | Lifetime

record AggregationConfig =
  behavior :: Behavior
  scope :: Scope
  reset :: bool

text \<open>
  Modelled from the spec: the table \<open>AGGREGATION_CONFIG\<close> of \<open>@unprice/db/utils\<close> is
  imported by the service and the resolver but not defined in the sources at hand; the
  rows are those of the specification's aggregation table (method, behavior, scope,
  resets).
\<close>

fun AGGREGATION_CONFIG :: "AggregationMethod \<Rightarrow> AggregationConfig" where
  "AGGREGATION_CONFIG AggNone = \<lparr>behavior = BehaviorNone, scope = Period, reset = True\<rparr>"
| "AGGREGATION_CONFIG AggSum = \<lparr>behavior = BehaviorSum, scope = Period, reset = True\<rparr>"
| "AGGREGATION_CONFIG AggCount = \<lparr>behavior = BehaviorSum, scope = Period, reset = True\<rparr>"
| "AGGREGATION_CONFIG AggMax = \<lparr>behavior = BehaviorMax, scope = Period, reset = True\<rparr>"
| "AGGREGATION_CONFIG AggLastDuringPeriod =
     \<lparr>behavior = BehaviorLast, scope = Period, reset = True\<rparr>"
| "AGGREGATION_CONFIG AggSumAll = \<lparr>behavior = BehaviorSum, scope = Lifetime, reset = False\<rparr>"
| "AGGREGATION_CONFIG AggCountAll = \<lparr>behavior = BehaviorSum, scope = Lifetime, reset = False\<rparr>"
| "AGGREGATION_CONFIG AggMaxAll = \<lparr>behavior = BehaviorMax, scope = Lifetime, reset = False\<rparr>"

text \<open>
  An entry of the entitlement's grants snapshot (\<open>entitlementGrantsSnapshotSchema\<close>):
  \<open>{id, type, name, effectiveAt, expiresAt, limit, priority, config}\<close>. The pricing
  configuration is opaque to the merging logic and kept as a string; it may be absent.
\<close>

record GrantSnapshot =
  g_id :: string
  g_type :: string
  g_name :: string
  g_effectiveAt :: int
  g_expiresAt :: "int option"
  g_limit :: "int option"
  g_priority :: int
  g_config :: "string option"

record MergeResult =
  m_limit :: "int option"
  m_grants :: "GrantSnapshot list"
  m_effectiveAt :: int
  m_expiresAt :: "int option"
  m_mergingPolicy :: EntitlementMergingPolicy

section \<open>Grant resolver: \<open>GrantsManager.mergeGrants\<close>\<close>

text \<open>
  \<open>[...grants].sort((a, b) => b.priority - a.priority)\<close>: the array sort is stable and
  orders by descending priority. \<open>sort_key\<close> is the stable insertion sort, keyed here
  by the negated priority.
\<close>

definition sortByPriority :: "GrantSnapshot list \<Rightarrow> GrantSnapshot list" where
  "sortByPriority grants = sort_key (\<lambda>g. - g_priority g) grants"

text \<open>
  The policy used by \<open>mergeGrants\<close>: the explicit one when given, else derived from the
  feature type (and, for usage features, the usage mode); \<open>replace\<close> when neither is
  provided.
\<close>

fun derivePolicy ::
  "EntitlementMergingPolicy option \<Rightarrow> FeatureType option \<Rightarrow> UsageMode option
     \<Rightarrow> EntitlementMergingPolicy" where
  "derivePolicy (Some p) _ _ = p"
| "derivePolicy None None _ = PolicyReplace"
| "derivePolicy None (Some Usage) usageMode =
     (if usageMode = Some ModeTier then PolicyMax else PolicySum)"
| "derivePolicy None (Some Tier) _ = PolicyMax"
| "derivePolicy None (Some Package) _ = PolicyMax"
| "derivePolicy None (Some Flat) _ = PolicyReplace"

text \<open>
  \<open>Math.min(...xs)\<close> and \<open>Math.max(...xs)\<close> on a non-empty array of finite numbers.
  Every call site is behind a non-emptiness guard (\<open>grants.length === 0\<close> returns
  early, \<open>limits.length > 0\<close>); on the empty array the model returns 0, a value the
  source never reads.
\<close>

fun Math_min :: "int list \<Rightarrow> int" where
  "Math_min [] = 0"
| "Math_min (x # xs) = fold min xs x"

fun Math_max :: "int list \<Rightarrow> int" where
  "Math_max [] = 0"
| "Math_max (x # xs) = fold max xs x"

text \<open>
  \<open>Math.max(...sorted.map((g) => g.expiresAt ?? Number.NEGATIVE_INFINITY))\<close> followed by
  \<open>maxEnd === Number.NEGATIVE_INFINITY ? null : maxEnd\<close>. The value \<open>None\<close> stands for
  \<open>-Infinity\<close>, which is below every timestamp and is what \<open>Math.max\<close> starts from.
\<close>

fun maxWithNegInf :: "int option \<Rightarrow> int option \<Rightarrow> int option" where
  "maxWithNegInf None b = b"
| "maxWithNegInf a None = a"
| "maxWithNegInf (Some a) (Some b) = Some (max a b)"

definition maxEnd :: "GrantSnapshot list \<Rightarrow> int option" where
  "maxEnd sorted_grants = fold maxWithNegInf (map g_expiresAt sorted_grants) None"

text \<open>The non-null limits: \<open>sorted.map((g) => g.limit).filter((l) => l !== null)\<close>.\<close>

definition nonNullLimits :: "GrantSnapshot list \<Rightarrow> int list" where
  "nonNullLimits sorted_grants = List.map_filter g_limit sorted_grants"

text \<open>
  \<open>sorted.find((g) => g.limit === target) || sorted[0]!\<close>: the first grant in priority
  order with the target limit, else the first grant. The list is non-empty at every
  call; \<open>undefined\<close> (the result on an empty list) is \<open>None\<close>.
\<close>

definition findWinning :: "int option \<Rightarrow> GrantSnapshot list \<Rightarrow> GrantSnapshot option" where
  "findWinning target sorted_grants =
     (case find (\<lambda>g. g_limit g = target) sorted_grants of
        Some g \<Rightarrow> Some g
      | None \<Rightarrow> (case sorted_grants of [] \<Rightarrow> None | g # _ \<Rightarrow> Some g))"

definition singleGrantResult ::
  "int option \<Rightarrow> GrantSnapshot \<Rightarrow> EntitlementMergingPolicy \<Rightarrow> MergeResult" where
  "singleGrantResult limitValue winner policy =
     \<lparr>m_limit = limitValue, m_grants = [winner], m_effectiveAt = g_effectiveAt winner,
      m_expiresAt = g_expiresAt winner, m_mergingPolicy = policy\<rparr>"

definition emptyMergeResult :: MergeResult where
  "emptyMergeResult =
     \<lparr>m_limit = None, m_grants = [], m_effectiveAt = 0, m_expiresAt = None,
      m_mergingPolicy = PolicyReplace\<rparr>"

text \<open>\<open>g.limit ?? 0\<close>: a missing limit counts as 0 in the sum.\<close>

definition limitOrZero :: "GrantSnapshot \<Rightarrow> int" where
  "limitOrZero g = (case g_limit g of None \<Rightarrow> 0 | Some l \<Rightarrow> l)"

definition mergeGrants ::
  "GrantSnapshot list \<Rightarrow> FeatureType option \<Rightarrow> UsageMode option
     \<Rightarrow> EntitlementMergingPolicy option \<Rightarrow> MergeResult" where
  "mergeGrants grants featureType usageMode explicitPolicy =
     (if grants = [] then emptyMergeResult
      else
        let sorted_grants = sortByPriority grants;
            policy = derivePolicy explicitPolicy featureType usageMode
        in case policy of
             PolicySum \<Rightarrow>
               (let total = sum_list (map limitOrZero sorted_grants);
                    minStart = Math_min (map g_effectiveAt sorted_grants)
                in \<lparr>m_limit = (if total > 0 then Some total else None),
                    m_grants = sorted_grants,
                    m_effectiveAt = minStart,
                    m_expiresAt = maxEnd sorted_grants,
                    m_mergingPolicy = policy\<rparr>)
           | PolicyMax \<Rightarrow>
               (let limits = nonNullLimits sorted_grants;
                    maxLimit = (if limits \<noteq> [] then Some (Math_max limits) else None)
                in case findWinning maxLimit sorted_grants of
                     Some winningGrant \<Rightarrow> singleGrantResult maxLimit winningGrant policy
                   | None \<Rightarrow> emptyMergeResult)
           | PolicyMin \<Rightarrow>
               (let limits = nonNullLimits sorted_grants;
                    minLimit = (if limits \<noteq> [] then Some (Math_min limits) else None)
                in case findWinning minLimit sorted_grants of
                     Some winningGrant \<Rightarrow> singleGrantResult minLimit winningGrant policy
                   | None \<Rightarrow> emptyMergeResult)
           | PolicyReplace \<Rightarrow>
               (case sorted_grants of
                  highest # _ \<Rightarrow> singleGrantResult (g_limit highest) highest policy
                | [] \<Rightarrow> emptyMergeResult))"

section \<open>Entitlements\<close>

record ResetConfig =
  rc_name :: string
  rc_resetInterval :: string
  rc_resetIntervalCount :: int
  rc_planType :: string
  rc_resetAnchor :: int

record BillingConfig =
  bc_name :: string
  bc_billingInterval :: string
  bc_billingIntervalCount :: int
  bc_planType :: string
  bc_billingAnchor :: int

text \<open>
  The metadata of a feature plan version and of an entitlement; every field is
  optional (\<open>metadata?.field\<close>). \<open>notifyUsageThreshold\<close> is a percentage.
\<close>

record Metadata =
  md_overageStrategy :: "OverageStrategy option"
  md_notifyUsageThreshold :: "int option"
  md_blockCustomer :: "bool option"
  md_hidden :: "bool option"
  md_realtime :: "bool option"

record FeaturePlanVersion =
  fpv_featureSlug :: string
  fpv_featureType :: FeatureType
  fpv_aggregationMethod :: AggregationMethod
  fpv_usageMode :: "UsageMode option"
  fpv_config :: string
  fpv_metadata :: "Metadata option"
  fpv_resetConfig :: "ResetConfig option"
  fpv_billingConfig :: "BillingConfig option"

text \<open>
  A grant with its feature plan version (\<open>grantSchemaExtended\<close>). The priority is a
  number, so \<open>g.priority ?? 0\<close> is \<open>g.priority\<close>.
\<close>

record Grant =
  x_id :: string
  x_type :: string
  x_name :: string
  x_effectiveAt :: int
  x_expiresAt :: "int option"
  x_limit :: "int option"
  x_priority :: int
  x_anchor :: int
  x_featurePlanVersion :: FeaturePlanVersion

text \<open>
  \<open>Omit<Entitlement, "id">\<close>, then \<open>Entitlement\<close>, then
  \<open>EntitlementState = Entitlement + {meter}\<close>. The meter field is a type parameter:
  the state held in storage carries the meter by value, the state a caller holds in
  memory carries a reference to a meter object. The bookkeeping timestamps
  \<open>createdAtM\<close> and \<open>updatedAtM\<close>, which no function of the model reads, are left out.
\<close>

record EntitlementBase =
  e_projectId :: string
  e_customerId :: string
  e_featureSlug :: string
  e_featureType :: FeatureType
  e_limit :: "int option"
  e_aggregationMethod :: AggregationMethod
  e_resetConfig :: "ResetConfig option"
  e_mergingPolicy :: EntitlementMergingPolicy
  e_grants :: "GrantSnapshot list"
  e_version :: string
  e_effectiveAt :: int
  e_expiresAt :: "int option"
  e_nextRevalidateAt :: int
  e_computedAt :: int
  e_metadata :: "Metadata option"

record Entitlement = EntitlementBase +
  e_id :: string

record 'm EntitlementState = Entitlement +
  meter :: 'm

record MeterState =
  usage :: rat
  snapshotUsage :: rat
  lastReconciledId :: string
  lastUpdated :: int
  lastCycleStart :: "int option"

section \<open>Entitlement service: validation\<close>

text \<open>
  The errors of \<open>validateEntitlementState\<close>, each an \<open>UnPriceEntitlementError\<close> whose
  message names the customer, the project and the feature.
\<close>

datatype UnPriceEntitlementError =
  EntitlementNotYetStarted string string string
| EntitlementExpired string string string
| NoActiveGrantFound string string string

text \<open>\<open>isGrantActive\<close>: \<open>grantEnd = grant.expiresAt ?? Number.POSITIVE_INFINITY\<close>.\<close>

definition isGrantActive :: "GrantSnapshot \<Rightarrow> int \<Rightarrow> bool" where
  "isGrantActive grant now =
     (now \<ge> g_effectiveAt grant
      \<and> (case g_expiresAt grant of None \<Rightarrow> True | Some grantEnd \<Rightarrow> now < grantEnd))"

text \<open>
  The grants of the state still active at \<open>now\<close>, by descending priority:
  \<open>state.grants.filter(isGrantActive).sort((a, b) => b.priority - a.priority)\<close>.
\<close>

definition activeGrants :: "'a EntitlementBase_scheme \<Rightarrow> int \<Rightarrow> GrantSnapshot list" where
  "activeGrants state now =
     sortByPriority (filter (\<lambda>grant. isGrantActive grant now) (e_grants state))"

text \<open>
  \<open>validateEntitlementState\<close>. The guards \<open>state.effectiveAt && ...\<close> and
  \<open>state.expiresAt && ...\<close> test truthiness: the number 0 and null are both falsy.
\<close>

definition validateEntitlementState ::
  "'a EntitlementBase_scheme \<Rightarrow> int
     \<Rightarrow> UnPriceEntitlementError + 'a EntitlementBase_scheme" where
  "validateEntitlementState state now =
     (if e_effectiveAt state \<noteq> 0 \<and> now < e_effectiveAt state
      then Inl (EntitlementNotYetStarted (e_customerId state) (e_projectId state)
                  (e_featureSlug state))
      else if (case e_expiresAt state of None \<Rightarrow> False
               | Some expiresAt \<Rightarrow> expiresAt \<noteq> 0 \<and> now > expiresAt)
      then Inl (EntitlementExpired (e_customerId state) (e_projectId state)
                  (e_featureSlug state))
      else if activeGrants state now = []
      then Inl (NoActiveGrantFound (e_customerId state) (e_projectId state)
                  (e_featureSlug state))
      else
        let mergedGrants = mergeGrants (activeGrants state now) (Some (e_featureType state))
                             None (Some (e_mergingPolicy state))
        in Inr (state\<lparr>e_effectiveAt := m_effectiveAt mergedGrants,
                       e_expiresAt := m_expiresAt mergedGrants,
                       e_grants := m_grants mergedGrants\<rparr>))"

section \<open>Grant resolver: \<open>GrantsManager.computeEntitlementState\<close>\<close>

datatype UnPriceGrantError = NoGrantsProvided | FeatureSlugMismatch

definition toSnapshot :: "Grant \<Rightarrow> GrantSnapshot" where
  "toSnapshot g =
     \<lparr>g_id = x_id g, g_type = x_type g, g_name = x_name g, g_effectiveAt = x_effectiveAt g,
      g_expiresAt = x_expiresAt g, g_limit = x_limit g, g_priority = x_priority g,
      g_config = Some (fpv_config (x_featurePlanVersion g))\<rparr>"

text \<open>\<open>g.featurePlanVersion.metadata?.overageStrategy\<close>.\<close>

definition grantOverageStrategy :: "Grant \<Rightarrow> OverageStrategy option" where
  "grantOverageStrategy g =
     (case fpv_metadata (x_featurePlanVersion g) of
        None \<Rightarrow> None | Some md \<Rightarrow> md_overageStrategy md)"

text \<open>
  The winning grant: the full grant whose id is that of the first grant kept by the
  merge (\<open>merged.grants[0] ?? grantsSnapshot[0]\<close>), else the best-priority grant.
\<close>

definition winningGrantOf :: "Grant list \<Rightarrow> Grant \<Rightarrow> MergeResult \<Rightarrow> Grant" where
  "winningGrantOf grants bestPriorityGrant merged =
     (let winningGrantSnapshot =
            (case m_grants merged of w # _ \<Rightarrow> w | [] \<Rightarrow> toSnapshot bestPriorityGrant)
      in case find (\<lambda>g. x_id g = g_id winningGrantSnapshot) grants of
           Some g \<Rightarrow> g
         | None \<Rightarrow> bestPriorityGrant)"

text \<open>The overage strategy merged over all grants, by merging policy.\<close>

definition mergeOverageStrategy ::
  "EntitlementMergingPolicy \<Rightarrow> Grant list \<Rightarrow> Grant \<Rightarrow> OverageStrategy" where
  "mergeOverageStrategy policy grants winningGrant =
     (let overageStrategy =
            (case grantOverageStrategy winningGrant of None \<Rightarrow> OverageNone | Some s \<Rightarrow> s)
      in if policy = PolicySum \<or> policy = PolicyMax then
           (if list_ex (\<lambda>g. grantOverageStrategy g = Some OverageAlways) grants
            then OverageAlways
            else if list_ex (\<lambda>g. grantOverageStrategy g = Some OverageLastCall) grants
            then OverageLastCall
            else overageStrategy)
         else if policy = PolicyMin then
           (if list_ex (\<lambda>g. grantOverageStrategy g = Some OverageNone) grants
            then OverageNone
            else if list_ex (\<lambda>g. grantOverageStrategy g = Some OverageLastCall) grants
            then OverageLastCall
            else OverageAlways)
         else overageStrategy)"

text \<open>
  \<open>winningGrantMetadata\<close>: the winning grant's metadata with the merged overage
  strategy and the defaults of the resolver.
\<close>

definition winningGrantMetadata :: "Grant \<Rightarrow> OverageStrategy \<Rightarrow> Metadata" where
  "winningGrantMetadata winningGrant overageStrategy =
     (let md = fpv_metadata (x_featurePlanVersion winningGrant)
      in \<lparr>md_overageStrategy = Some overageStrategy,
          md_notifyUsageThreshold =
            Some (case md of None \<Rightarrow> 90
                  | Some m \<Rightarrow> (case md_notifyUsageThreshold m of None \<Rightarrow> 90 | Some t \<Rightarrow> t)),
          md_blockCustomer =
            Some (case md of None \<Rightarrow> False
                  | Some m \<Rightarrow> (case md_blockCustomer m of None \<Rightarrow> False | Some b \<Rightarrow> b)),
          md_hidden =
            Some (case md of None \<Rightarrow> False
                  | Some m \<Rightarrow> (case md_hidden m of None \<Rightarrow> False | Some b \<Rightarrow> b)),
          md_realtime =
            Some (case md of None \<Rightarrow> False
                  | Some m \<Rightarrow> (case md_realtime m of None \<Rightarrow> False | Some b \<Rightarrow> b))\<rparr>)"

text \<open>
  \<open>localResetConfig = resetConfig ?? billingConfig ?? null\<close>, both anchored at the
  winning grant's anchor.
\<close>

definition localResetConfig :: "Grant \<Rightarrow> ResetConfig option" where
  "localResetConfig winningGrant =
     (case fpv_resetConfig (x_featurePlanVersion winningGrant) of
        Some rc \<Rightarrow> Some (rc\<lparr>rc_resetAnchor := x_anchor winningGrant\<rparr>)
      | None \<Rightarrow>
          (case fpv_billingConfig (x_featurePlanVersion winningGrant) of
             Some bc \<Rightarrow>
               Some \<lparr>rc_name = bc_name bc, rc_resetInterval = bc_billingInterval bc,
                     rc_resetIntervalCount = bc_billingIntervalCount bc,
                     rc_planType = bc_planType bc, rc_resetAnchor = x_anchor winningGrant\<rparr>
           | None \<Rightarrow> None))"

text \<open>
  The environment of the resolver: the SHA-256 of the JSON of the merged grants
  (\<open>hashStringSHA256\<close>, from \<open>@unprice/db/utils\<close>), the clock \<open>Date.now()\<close> and the
  revalidation interval are parameters.
\<close>

record ResolverEnv =
  hashStringSHA256 :: "GrantSnapshot list \<Rightarrow> string"
  dateNow :: int
  revalidateInterval :: int

definition computeEntitlementState ::
  "ResolverEnv \<Rightarrow> string \<Rightarrow> string \<Rightarrow> Grant list \<Rightarrow> UnPriceGrantError + EntitlementBase" where
  "computeEntitlementState env projectId customerId grants =
     (case grants of
        [] \<Rightarrow> Inl NoGrantsProvided
      | first # _ \<Rightarrow>
          let featureSlug = fpv_featureSlug (x_featurePlanVersion first)
          in if \<not> list_all (\<lambda>g. fpv_featureSlug (x_featurePlanVersion g) = featureSlug) grants
             then Inl FeatureSlugMismatch
             else
               (case sort_key (\<lambda>g. - x_priority g) grants of
                  [] \<Rightarrow> Inl NoGrantsProvided
                | bestPriorityGrant # rest \<Rightarrow>
                    let ordered = bestPriorityGrant # rest;
                        grantsSnapshot = map toSnapshot ordered;
                        best = x_featurePlanVersion bestPriorityGrant;
                        merged = mergeGrants grantsSnapshot (Some (fpv_featureType best))
                                   (fpv_usageMode best) None;
                        winningGrant = winningGrantOf grants bestPriorityGrant merged;
                        overageStrategy =
                          mergeOverageStrategy (m_mergingPolicy merged) grants winningGrant;
                        config = AGGREGATION_CONFIG (fpv_aggregationMethod best)
                    in Inr \<lparr>e_projectId = projectId,
                            e_customerId = customerId,
                            e_featureSlug = featureSlug,
                            e_featureType = fpv_featureType best,
                            e_limit = m_limit merged,
                            e_aggregationMethod = fpv_aggregationMethod best,
                            e_resetConfig =
                              (if reset config then localResetConfig winningGrant else None),
                            e_mergingPolicy = m_mergingPolicy merged,
                            e_grants = m_grants merged,
                            e_version = hashStringSHA256 env (m_grants merged),
                            e_effectiveAt =
                              (if reset config then m_effectiveAt merged
                               else x_effectiveAt winningGrant),
                            e_expiresAt =
                              (if reset config then m_expiresAt merged
                               else x_expiresAt winningGrant),
                            e_nextRevalidateAt = dateNow env + revalidateInterval env,
                            e_computedAt = dateNow env,
                            e_metadata = Some (winningGrantMetadata winningGrant overageStrategy)\<rparr>))"

section \<open>Entitlement service: the usage meter's configuration\<close>

text \<open>
  The first argument of \<open>new UsageMeter(...)\<close> in \<open>getUsageMeter\<close>. The capacity
  \<open>limit ?? Number.POSITIVE_INFINITY\<close> keeps \<open>None\<close> for infinity.
\<close>

record UsageMeterConfig =
  capacity :: "int option"
  um_aggregationMethod :: AggregationMethod
  um_featureType :: FeatureType
  um_resetConfig :: "ResetConfig option"
  startDate :: int
  threshold :: rat
  endDate :: "int option"
  overageStrategy :: "OverageStrategy option"

definition getUsageMeterConfig :: "'a EntitlementBase_scheme \<Rightarrow> UsageMeterConfig" where
  "getUsageMeterConfig validatedState =
     \<lparr>capacity = e_limit validatedState,
      um_aggregationMethod = e_aggregationMethod validatedState,
      um_featureType = e_featureType validatedState,
      um_resetConfig = e_resetConfig validatedState,
      startDate = e_effectiveAt validatedState,
      threshold =
        of_int (case e_metadata validatedState of None \<Rightarrow> 95
                | Some md \<Rightarrow> (case md_notifyUsageThreshold md of None \<Rightarrow> 95 | Some t \<Rightarrow> t))
          / 100,
      endDate = e_expiresAt validatedState,
      overageStrategy =
        (case e_metadata validatedState of None \<Rightarrow> None | Some md \<Rightarrow> md_overageStrategy md)\<rparr>"

section \<open>Entitlement service: storage, analytics and the environment\<close>

text \<open>
  Modelled from the spec: \<open>makeKey\<close> belongs to the storage provider, which is not in
  the sources at hand; the key of a customer's feature is \<open>proj:cust:feat\<close>, as the
  cache namespace table states for the entries keyed with it.
\<close>

definition makeKey :: "string \<Rightarrow> string \<Rightarrow> string \<Rightarrow> string" where
  "makeKey customerId projectId featureSlug =
     projectId @ '':'' @ customerId @ '':'' @ featureSlug"

record UsageRecord =
  u_id :: string
  u_customerId :: string
  u_projectId :: string
  u_featureSlug :: string
  u_usage :: rat
  u_timestamp :: int
  u_idempotenceKey :: string
  u_requestId :: string
  u_createdAt :: int
  u_cost :: rat
  u_rate :: string
  u_rateAmount :: rat
  u_rateCurrency :: string
  u_deleted :: int

text \<open>
  Modelled from the spec: the storage provider (\<open>UnPriceEntitlementStorage\<close>) is an
  interface whose implementation is not in the sources at hand. It is a durable map
  from keys to entitlement states (held by value), a set of observed idempotence keys
  and an append-only buffer of usage records. \<open>get\<close> fails when a fault is injected;
  \<open>hasIdempotenceKey\<close> inserts the key on first observation; \<open>reset\<close> clears
  everything.
\<close>

record Storage =
  st_entries :: "string \<rightharpoonup> MeterState EntitlementState"
  st_idempotenceKeys :: "string set"
  st_usageRecords :: "UsageRecord list"
  st_getFault :: "string option"

definition storage_get ::
  "Storage \<Rightarrow> string \<Rightarrow> string \<Rightarrow> string
     \<Rightarrow> string + MeterState EntitlementState option" where
  "storage_get st customerId projectId featureSlug =
     (case st_getFault st of
        Some msg \<Rightarrow> Inl msg
      | None \<Rightarrow> Inr (st_entries st (makeKey customerId projectId featureSlug)))"

definition storage_set :: "Storage \<Rightarrow> MeterState EntitlementState \<Rightarrow> Storage" where
  "storage_set st state =
     st\<lparr>st_entries :=
          (st_entries st)(makeKey (e_customerId state) (e_projectId state)
                            (e_featureSlug state) \<mapsto> state)\<rparr>"

definition hasIdempotenceKey :: "Storage \<Rightarrow> string \<Rightarrow> bool \<times> Storage" where
  "hasIdempotenceKey st k =
     (k \<in> st_idempotenceKeys st, st\<lparr>st_idempotenceKeys := insert k (st_idempotenceKeys st)\<rparr>)"

definition insertUsageRecord :: "Storage \<Rightarrow> UsageRecord \<Rightarrow> Storage" where
  "insertUsageRecord st r = st\<lparr>st_usageRecords := st_usageRecords st @ [r]\<rparr>"

definition storage_reset :: "Storage \<Rightarrow> Storage" where
  "storage_reset st =
     \<lparr>st_entries = Map.empty, st_idempotenceKeys = {}, st_usageRecords = [],
      st_getFault = st_getFault st\<rparr>"

text \<open>The argument and the result of \<open>analytics.getFeaturesUsageCursor\<close>.\<close>

record CursorQuery =
  q_customerId :: string
  q_projectId :: string
  q_featureSlug :: string
  q_aggregationMethod :: AggregationMethod
  q_featureType :: FeatureType
  q_afterRecordId :: string
  q_beforeRecordId :: string
  q_startAt :: int

record CursorResult =
  r_usage :: "rat option"
  r_lastRecordId :: "string option"

record CycleArgs =
  effectiveStartDate :: int
  effectiveEndDate :: "int option"
  cycleNow :: int
  cycleConfig :: ResetConfig

record CycleWindow =
  cycleStart :: int
  cycleEnd :: int

text \<open>
  The collaborators of the service that are outside the sources at hand are
  parameters: the cycle-window calculator (\<open>calculateCycleWindow\<close>), the ULID generator
  seeded with a time (\<open>ulid(t)\<close>), the analytics cursor query and the clock
  (\<open>Date.now()\<close>).
\<close>

record ServiceEnv =
  calculateCycleWindow :: "CycleArgs \<Rightarrow> CycleWindow option"
  ulid :: "int \<Rightarrow> string"
  getFeaturesUsageCursor :: "CursorQuery \<Rightarrow> string + CursorResult"
  clockNow :: int

datatype LogEntry = LogDebug string | LogWarn string | LogError string

text \<open>
  The memory of the actor: meter objects live in a heap and an in-memory entitlement
  state refers to its meter by address, so that a shallow copy \<open>{ ...state }\<close> shares
  the meter with the original. The storage and the log complete the world.
\<close>

type_synonym MeterRef = nat

record World =
  heap :: "MeterRef \<Rightarrow> MeterState"
  storage :: Storage
  logs :: "LogEntry list"

section \<open>Entitlement service: \<open>reconcileFeatureUsage\<close>\<close>

definition MAX_DRIFT :: rat where
  "MAX_DRIFT = 1000"

definition EPSILON :: rat where
  "EPSILON = 1 / 1000"

text \<open>\<open>subMinutes(new Date(now), 5).getTime()\<close>.\<close>

definition watermarkOf :: "int \<Rightarrow> int" where
  "watermarkOf now = now - 5 * 60 * 1000"

text \<open>
  The cycle window of the snapshot at a time: computed only when the entitlement has a
  reset configuration, null otherwise.
\<close>

definition cycleWindowAt ::
  "ServiceEnv \<Rightarrow> 'a EntitlementBase_scheme \<Rightarrow> int \<Rightarrow> CycleWindow option" where
  "cycleWindowAt env snapshot t =
     (case e_resetConfig snapshot of
        Some rc \<Rightarrow>
          calculateCycleWindow env
            \<lparr>effectiveStartDate = e_effectiveAt snapshot,
             effectiveEndDate = e_expiresAt snapshot, cycleNow = t, cycleConfig = rc\<rparr>
      | None \<Rightarrow> None)"

text \<open>\<open>watermarkCycleWindow?.start ?? snapshot.effectiveAt\<close>.\<close>

definition reconcileEffectiveAt ::
  "ServiceEnv \<Rightarrow> 'a EntitlementBase_scheme \<Rightarrow> int \<Rightarrow> int" where
  "reconcileEffectiveAt env snapshot now =
     (case cycleWindowAt env snapshot (watermarkOf now) of
        Some cw \<Rightarrow> cycleStart cw
      | None \<Rightarrow> e_effectiveAt snapshot)"

text \<open>
  The skip checks of the reconciler, in the order of the source; the result is the log
  entry of the first check that fires. Record ids are compared as strings
  (\<open>lastReconciledId >= beforeRecordId\<close>), that is lexicographically.
\<close>

definition reconcileSkip ::
  "ServiceEnv \<Rightarrow> MeterRef EntitlementState \<Rightarrow> int \<Rightarrow> World \<Rightarrow> LogEntry option" where
  "reconcileSkip env snapshot now w =
     (let config = AGGREGATION_CONFIG (e_aggregationMethod snapshot);
          watermark = watermarkOf now;
          watermarkCycleWindow = cycleWindowAt env snapshot watermark;
          currentCycleWindow = cycleWindowAt env snapshot (clockNow env);
          effectiveAt = reconcileEffectiveAt env snapshot now;
          lastReconciledId = lastReconciledId (heap w (meter snapshot));
          beforeRecordId = ulid env watermark
      in if e_featureType snapshot = Flat
         then Some (LogDebug ''skipping reconcile for flat feature'')
         else if behavior config \<noteq> BehaviorSum
         then Some (LogDebug ''skipping reconcile for non-sum behavior'')
         else if (case (watermarkCycleWindow, currentCycleWindow) of
                    (Some wcw, Some ccw) \<Rightarrow> cycleStart wcw \<noteq> cycleStart ccw
                  | _ \<Rightarrow> False)
         then Some (LogDebug ''skipping reconcile, the watermark cycle window has changed'')
         else if lastReconciledId \<ge> beforeRecordId
         then Some (LogDebug
           ''skipping reconcile, reconciliation already happened in the past 5 minutes'')
         else if watermark < effectiveAt
         then Some (LogDebug
           ''skipping reconcile, not enough time has passed since the last reconciliation'')
         else if lastReconciledId = []
         then Some (LogWarn ''skipping reconcile, the last reconciled id is empty'')
         else None)"

text \<open>The cursor query sent to analytics.\<close>

definition reconcileQuery ::
  "ServiceEnv \<Rightarrow> MeterRef EntitlementState \<Rightarrow> int \<Rightarrow> World \<Rightarrow> CursorQuery" where
  "reconcileQuery env snapshot now w =
     \<lparr>q_customerId = e_customerId snapshot,
      q_projectId = e_projectId snapshot,
      q_featureSlug = e_featureSlug snapshot,
      q_aggregationMethod = e_aggregationMethod snapshot,
      q_featureType = e_featureType snapshot,
      q_afterRecordId = lastReconciledId (heap w (meter snapshot)),
      q_beforeRecordId = ulid env (watermarkOf now),
      q_startAt = reconcileEffectiveAt env snapshot now\<rparr>"

text \<open>
  \<open>analyticsResult.val.lastRecordId || beforeRecordId\<close>: an absent and an empty record
  id are both falsy.
\<close>

definition analyticsLastRecordId :: "CursorResult \<Rightarrow> string \<Rightarrow> string" where
  "analyticsLastRecordId res beforeRecordId =
     (case r_lastRecordId res of
        None \<Rightarrow> beforeRecordId
      | Some rid \<Rightarrow> if rid = [] then beforeRecordId else rid)"

text \<open>\<open>Number(analyticsResult.val.usage ?? 0)\<close>.\<close>

definition analyticsUsage :: "CursorResult \<Rightarrow> rat" where
  "analyticsUsage res = (case r_usage res of None \<Rightarrow> 0 | Some u \<Rightarrow> u)"

definition appendLog :: "World \<Rightarrow> LogEntry \<Rightarrow> World" where
  "appendLog w entry = w\<lparr>logs := logs w @ [entry]\<rparr>"

text \<open>
  The drift step and the persist step, once both fetches have succeeded.
  \<open>meter\<close> is the meter object of the snapshot, that is of the caller's state; its
  fields are assigned in place, and the state written to storage is the refetched one
  with that meter (\<open>{ ...entitlementState, meter: meter }\<close>).
\<close>

definition persistMeter ::
  "MeterRef \<Rightarrow> MeterState EntitlementState \<Rightarrow> (MeterRef \<Rightarrow> MeterState) \<Rightarrow> World \<Rightarrow> World" where
  "persistMeter meterRef entitlementState h w =
     w\<lparr>heap := h,
       storage := storage_set (storage w) (entitlementState\<lparr>meter := h meterRef\<rparr>)\<rparr>"

definition applyDrift ::
  "ServiceEnv \<Rightarrow> MeterRef EntitlementState \<Rightarrow> int \<Rightarrow> CursorResult
     \<Rightarrow> MeterState EntitlementState \<Rightarrow> World \<Rightarrow> World" where
  "applyDrift env snapshot now res entitlementState w =
     (let config = AGGREGATION_CONFIG (e_aggregationMethod snapshot);
          meterRef = meter snapshot;
          snapshotCurrentUsage = usage (heap w meterRef);
          snapshotLastReconciledUsage = snapshotUsage (heap w meterRef);
          drift = analyticsUsage res - snapshotLastReconciledUsage
      in if behavior config = BehaviorSum
         then
           (if \<bar>drift\<bar> > MAX_DRIFT
            then appendLog w (LogError ''Drift too large for sum'')
            else
              let h1 = (if \<bar>drift\<bar> > EPSILON
                        then (heap w)(meterRef :=
                               (heap w meterRef)\<lparr>usage := snapshotCurrentUsage + drift\<rparr>)
                        else heap w);
                  h2 = h1(meterRef := (h1 meterRef)\<lparr>usage := snapshotCurrentUsage\<rparr>);
                  h3 = h2(meterRef :=
                         (h2 meterRef)\<lparr>lastReconciledId :=
                            analyticsLastRecordId res (ulid env (watermarkOf now))\<rparr>)
              in persistMeter meterRef entitlementState h3 w)
         else persistMeter meterRef entitlementState (heap w) w)"

definition reconcileFeatureUsage ::
  "ServiceEnv \<Rightarrow> MeterRef EntitlementState \<Rightarrow> int \<Rightarrow> World \<Rightarrow> World" where
  "reconcileFeatureUsage env state now w =
     (let snapshot = state
      in case reconcileSkip env snapshot now w of
           Some entry \<Rightarrow> appendLog w entry
         | None \<Rightarrow>
             let analyticsResult = getFeaturesUsageCursor env (reconcileQuery env snapshot now w);
                 entitlementResult =
                   storage_get (storage w) (e_customerId snapshot) (e_projectId snapshot)
                     (e_featureSlug snapshot)
             in case entitlementResult of
                  Inl err \<Rightarrow> appendLog w (LogError ''Failed to get entitlement state'')
                | Inr found \<Rightarrow>
                    (case analyticsResult of
                       Inl err \<Rightarrow> appendLog w (LogError ''Analytics failed'')
                     | Inr res \<Rightarrow>
                         (case found of
                            None \<Rightarrow> appendLog w (LogError ''Failed to get entitlement state'')
                          | Some entitlementState \<Rightarrow>
                              applyDrift env snapshot now res entitlementState w)))"

section \<open>Entitlement service: \<open>reportUsage\<close>\<close>

datatype DeniedReason =
  ENTITLEMENT_NOT_FOUND | ENTITLEMENT_ERROR | LIMIT_EXCEEDED | FEATURE_DISABLED
| NOT_ACTIVE | EXPIRED | REVOKED

record ConsumeResult =
  c_allowed :: bool
  c_remaining :: rat
  c_deniedReason :: "DeniedReason option"
  c_message :: "string option"
  c_overThreshold :: bool

text \<open>
  The class \<open>UsageMeter\<close> is imported by the service and not defined in the sources at
  hand: its constructor, \<open>consume\<close> and \<open>toPersist\<close> are parameters, over any type of
  meter objects. \<open>consume\<close> returns its result and the meter after the call.
\<close>

record 'um UsageMeterOps =
  newUsageMeter :: "UsageMeterConfig \<Rightarrow> MeterState \<Rightarrow> 'um"
  um_consume :: "'um \<Rightarrow> rat \<Rightarrow> int \<Rightarrow> ConsumeResult \<times> 'um"
  um_toPersist :: "'um \<Rightarrow> MeterState"

definition getUsageMeter :: "'um UsageMeterOps \<Rightarrow> MeterState EntitlementState \<Rightarrow> 'um" where
  "getUsageMeter ops validatedState =
     newUsageMeter ops (getUsageMeterConfig validatedState) (meter validatedState)"

record ReportUsageRequest =
  rq_customerId :: string
  rq_projectId :: string
  rq_featureSlug :: string
  rq_usage :: rat
  rq_timestamp :: int
  rq_idempotenceKey :: string
  rq_requestId :: string

record ReportUsageResult =
  rs_allowed :: bool
  rs_remaining :: "rat option"
  rs_message :: "string option"
  rs_deniedReason :: "DeniedReason option"
  rs_usage :: rat
  rs_limit :: "int option"
  rs_cost :: "rat option"
  rs_notifiedOverLimit :: "bool option"

record WaterfallGrant =
  wg_id :: string
  wg_limit :: "int option"
  wg_priority :: int
  wg_config :: string
  wg_prorate :: int

record PriceItem =
  pi_displayAmount :: string
  pi_unitPrice :: rat
  pi_currency :: string

record WaterfallResult =
  wr_totalPrice :: rat
  wr_items :: "PriceItem list"

text \<open>
  The parameters of \<open>reportUsage\<close> from outside the sources at hand: the pricing
  waterfall (\<open>calculateWaterfallPrice\<close>), the fresh record id (\<open>ulid()\<close>) and the clock.
\<close>

record ReportEnv =
  calculateWaterfallPrice :: "WaterfallGrant list \<Rightarrow> rat \<Rightarrow> FeatureType \<Rightarrow> string + WaterfallResult"
  freshUlid :: string
  reportClock :: int

text \<open>
  \<open>roundToTwoDecimals\<close>: undefined stays undefined; \<open>Math.round(value * 100) / 100\<close>
  rounds to the nearest hundredth, halves upwards.
\<close>

definition roundToTwoDecimals :: "rat option \<Rightarrow> rat option" where
  "roundToTwoDecimals amount =
     (case amount of None \<Rightarrow> None | Some v \<Rightarrow> Some (of_int \<lfloor>v * 100 + 1 / 2\<rfloor> / 100))"

record CostAndRate =
  cr_cost :: "rat option"
  cr_rate :: "string option"
  cr_rateAmount :: "rat option"
  cr_rateCurrency :: "string option"

definition noCostAndRate :: CostAndRate where
  "noCostAndRate = \<lparr>cr_cost = None, cr_rate = None, cr_rateAmount = None, cr_rateCurrency = None\<rparr>"

text \<open>
  \<open>calculateCostAndRate\<close>; the warning logged when the waterfall fails is not part of
  the model.
\<close>

definition calculateCostAndRate ::
  "ReportEnv \<Rightarrow> 'a EntitlementBase_scheme \<Rightarrow> rat \<Rightarrow> CostAndRate" where
  "calculateCostAndRate env state usageValue =
     (if e_featureType state = Flat then noCostAndRate
      else
        case calculateWaterfallPrice env
               (map (\<lambda>g. \<lparr>wg_id = g_id g, wg_limit = g_limit g, wg_priority = g_priority g,
                           wg_config = (case g_config g of Some c \<Rightarrow> c | None \<Rightarrow> []),
                           wg_prorate = 1\<rparr>)
                  (filter (\<lambda>g. g_config g \<noteq> None) (e_grants state)))
               usageValue (e_featureType state) of
          Inl err \<Rightarrow> noCostAndRate
        | Inr result \<Rightarrow>
            (case rev (wr_items result) of
               [] \<Rightarrow>
                 \<lparr>cr_cost = roundToTwoDecimals (Some (wr_totalPrice result)),
                  cr_rate = Some [], cr_rateAmount = None, cr_rateCurrency = None\<rparr>
             | lastItem # _ \<Rightarrow>
                 \<lparr>cr_cost = roundToTwoDecimals (Some (wr_totalPrice result)),
                  cr_rate = Some (pi_displayAmount lastItem),
                  cr_rateAmount = roundToTwoDecimals (Some (pi_unitPrice lastItem)),
                  cr_rateCurrency = Some (pi_currency lastItem)\<rparr>))"

text \<open>
  What \<open>reportUsage\<close> does to its collaborators, in order; the actor's state is the
  storage and this trace.
\<close>

datatype Effect =
  EffHasIdempotenceKey string
| EffConsume rat int
| EffStorageSet string
| EffInsertUsageRecord string
| EffUpdateAccessControlList string string bool

record Actor =
  a_storage :: Storage
  a_effects :: "Effect list"

definition errorMessage :: "UnPriceEntitlementError \<Rightarrow> string" where
  "errorMessage err =
     (case err of
        EntitlementNotYetStarted c p f \<Rightarrow>
          ''Entitlement not yet started for customer '' @ c @ '' and project '' @ p
            @ '' and feature '' @ f
      | EntitlementExpired c p f \<Rightarrow>
          ''Entitlement expired for customer '' @ c @ '' and project '' @ p
            @ '' and feature '' @ f
      | NoActiveGrantFound c p f \<Rightarrow>
          ''No active grant found for customer '' @ c @ '' and project '' @ p
            @ '' and feature '' @ f)"

definition deniedReport :: "string \<Rightarrow> DeniedReason \<Rightarrow> ReportUsageResult" where
  "deniedReport msg reason =
     \<lparr>rs_allowed = False, rs_remaining = None, rs_message = Some msg,
      rs_deniedReason = Some reason, rs_usage = 0, rs_limit = None, rs_cost = None,
      rs_notifiedOverLimit = None\<rparr>"

definition buildReportUsageResponse ::
  "ReportEnv \<Rightarrow> ConsumeResult \<Rightarrow> MeterState EntitlementState \<Rightarrow> MeterState
     \<Rightarrow> ReportUsageResult" where
  "buildReportUsageResponse env consumeResult validatedState meterResult =
     \<lparr>rs_allowed = c_allowed consumeResult,
      rs_remaining = Some (c_remaining consumeResult),
      rs_message = c_message consumeResult,
      rs_deniedReason = c_deniedReason consumeResult,
      rs_usage = usage meterResult,
      rs_limit = e_limit validatedState,
      rs_cost = cr_cost (calculateCostAndRate env validatedState (usage meterResult)),
      rs_notifiedOverLimit = Some (c_overThreshold consumeResult)\<rparr>"

text \<open>The usage record appended when the consumption is allowed.\<close>

definition usageRecordOf ::
  "ReportEnv \<Rightarrow> ReportUsageRequest \<Rightarrow> MeterState EntitlementState \<Rightarrow> MeterState
     \<Rightarrow> UsageRecord" where
  "usageRecordOf env params validatedState meterResult =
     (let totalUsageAfter = usage meterResult;
          totalUsageBefore = totalUsageAfter - rq_usage params;
          after = calculateCostAndRate env validatedState totalUsageAfter;
          before = calculateCostAndRate env validatedState totalUsageBefore;
          incrementalCost =
            (case roundToTwoDecimals
                    (Some ((case cr_cost after of None \<Rightarrow> 0 | Some c \<Rightarrow> c)
                           - (case cr_cost before of None \<Rightarrow> 0 | Some c \<Rightarrow> c))) of
               None \<Rightarrow> 0 | Some c \<Rightarrow> c)
      in \<lparr>u_id = freshUlid env,
          u_customerId = rq_customerId params,
          u_projectId = rq_projectId params,
          u_featureSlug = rq_featureSlug params,
          u_usage = rq_usage params,
          u_timestamp = rq_timestamp params,
          u_idempotenceKey = rq_idempotenceKey params,
          u_requestId = rq_requestId params,
          u_createdAt = reportClock env,
          u_cost = incrementalCost,
          u_rate = (case cr_rate after of None \<Rightarrow> [] | Some r \<Rightarrow> r),
          u_rateAmount =
            (case roundToTwoDecimals (cr_rateAmount after) of None \<Rightarrow> 0 | Some a \<Rightarrow> a),
          u_rateCurrency = (case cr_rateCurrency after of None \<Rightarrow> [] | Some c \<Rightarrow> c),
          u_deleted = 0\<rparr>)"

text \<open>
  \<open>reportUsage\<close>, from the outcome of \<open>getStateWithRevalidation\<close> on: that outcome
  (an error message, no state, or the state) is the argument \<open>stateResult\<close>, and the
  actor is the one that call has left. Writes handed to \<open>waitUntil\<close> are performed in
  program order.
\<close>

definition reportUsage ::
  "'um UsageMeterOps \<Rightarrow> ReportEnv \<Rightarrow> ReportUsageRequest
     \<Rightarrow> string + MeterState EntitlementState option \<Rightarrow> Actor
     \<Rightarrow> ReportUsageResult \<times> Actor" where
  "reportUsage ops env params stateResult actor =
     (case stateResult of
        Inl stateErr \<Rightarrow> (deniedReport stateErr ENTITLEMENT_ERROR, actor)
      | Inr None \<Rightarrow>
          (deniedReport ''No entitlement found for the given customer, project and feature''
             ENTITLEMENT_NOT_FOUND, actor)
      | Inr (Some state) \<Rightarrow>
          (case validateEntitlementState state (rq_timestamp params) of
             Inl err \<Rightarrow> (deniedReport (errorMessage err) ENTITLEMENT_ERROR, actor)
           | Inr validatedState \<Rightarrow>
               let usageMeter = getUsageMeter ops validatedState;
                   (keyExists, st1) =
                     hasIdempotenceKey (a_storage actor) (rq_idempotenceKey params);
                   eff1 = a_effects actor @ [EffHasIdempotenceKey (rq_idempotenceKey params)]
               in if keyExists
                  then
                    (let meterResult = um_toPersist ops usageMeter;
                         cost = cr_cost (calculateCostAndRate env validatedState
                                           (usage meterResult))
                     in (\<lparr>rs_allowed = True, rs_remaining = None,
                          rs_message = Some ''Usage already recorded (idempotent)'',
                          rs_deniedReason = None, rs_usage = usage meterResult,
                          rs_limit = e_limit validatedState, rs_cost = cost,
                          rs_notifiedOverLimit = Some False\<rparr>,
                         \<lparr>a_storage = st1, a_effects = eff1\<rparr>))
                  else
                    (let (consumeResult, consumed) =
                           um_consume ops usageMeter (rq_usage params) (rq_timestamp params);
                         meterResult = um_toPersist ops consumed;
                         persisted = validatedState\<lparr>meter := meterResult\<rparr>;
                         st2 = storage_set st1 persisted;
                         eff2 = eff1 @ [EffConsume (rq_usage params) (rq_timestamp params),
                                        EffStorageSet
                                          (makeKey (e_customerId persisted)
                                             (e_projectId persisted) (e_featureSlug persisted))];
                         usageRecord = usageRecordOf env params validatedState meterResult;
                         st3 = (if c_allowed consumeResult
                                then insertUsageRecord st2 usageRecord else st2);
                         eff3 = (if c_allowed consumeResult
                                 then eff2 @ [EffInsertUsageRecord (u_id usageRecord)]
                                 else eff2);
                         shouldBlockCustomer =
                           (c_deniedReason consumeResult = Some LIMIT_EXCEEDED
                            \<and> (case e_metadata validatedState of
                                  None \<Rightarrow> False
                                | Some md \<Rightarrow> md_blockCustomer md = Some True));
                         eff4 = (if shouldBlockCustomer
                                    \<or> (rq_usage params < 0 \<and> c_allowed consumeResult
                                        \<and> c_remaining consumeResult > 0)
                                 then eff3 @ [EffUpdateAccessControlList (rq_customerId params)
                                                (rq_projectId params) shouldBlockCustomer]
                                 else eff3)
                     in (buildReportUsageResponse env consumeResult validatedState meterResult,
                         \<lparr>a_storage = st3, a_effects = eff4\<rparr>))))"

section \<open>Entitlement service: \<open>resetEntitlements\<close>\<close>

record MinimalEntitlement =
  me_id :: string
  me_featureSlug :: string
  me_effectiveAt :: int
  me_expiresAt :: "int option"

record AccessControlList =
  customerUsageLimitReached :: "bool option"
  customerDisabled :: "bool option"
  subscriptionStatus :: "string option"

text \<open>
  Modelled from the spec: the cache service is not in the sources at hand. Each of the
  five namespaces is a map from keys to values with \<open>get\<close>, \<open>set\<close> and \<open>remove\<close>;
  \<open>swr(key, loader)\<close> returns the cached value when there is one and otherwise runs the
  loader and caches what it returns, or fails (after its retries) when a fault is
  injected. The entitlement rows of the database and the actor's storage complete the
  back end. The current-usage summary is opaque.
\<close>

record Backend =
  cache_customerEntitlement :: "string \<rightharpoonup> Entitlement"
  cache_customerEntitlements :: "string \<rightharpoonup> MinimalEntitlement list"
  cache_negativeEntitlements :: "string \<rightharpoonup> bool"
  cache_accessControlList :: "string \<rightharpoonup> AccessControlList"
  cache_getCurrentUsage :: "string \<rightharpoonup> string"
  cache_swrFault :: "string option"
  db_entitlements :: "Entitlement list"
  actorStorage :: Storage

text \<open>
  \<open>computeGrantsForCustomer\<close> reads the grants of the customer from the database and
  upserts the entitlements it computes; the grants table is outside the model, so its
  outcome and the entitlement rows it leaves are a parameter, with the clock.
\<close>

record ResetEnv =
  computeGrantsForCustomer ::
    "string \<Rightarrow> string \<Rightarrow> int \<Rightarrow> Entitlement list \<Rightarrow> (string + Entitlement list) \<times> Entitlement list"
  resetClock :: int

definition toMinimal :: "Entitlement \<Rightarrow> MinimalEntitlement" where
  "toMinimal e =
     \<lparr>me_id = e_id e, me_featureSlug = e_featureSlug e, me_effectiveAt = e_effectiveAt e,
      me_expiresAt = e_expiresAt e\<rparr>"

text \<open>\<open>getActiveEntitlementsFromDB\<close>: the rows of the customer in the project.\<close>

definition getActiveEntitlementsFromDB ::
  "string \<Rightarrow> string \<Rightarrow> Backend \<Rightarrow> MinimalEntitlement list" where
  "getActiveEntitlementsFromDB customerId projectId bk =
     map toMinimal
       (filter (\<lambda>e. e_customerId e = customerId \<and> e_projectId e = projectId)
          (db_entitlements bk))"

text \<open>
  \<open>getActiveEntitlements\<close> without options, as \<open>resetEntitlements\<close> calls it. Cache
  writes handed to \<open>waitUntil\<close> are performed in program order.
\<close>

definition getActiveEntitlements ::
  "ResetEnv \<Rightarrow> string \<Rightarrow> string \<Rightarrow> Backend
     \<Rightarrow> (string + MinimalEntitlement list) \<times> Backend" where
  "getActiveEntitlements env customerId projectId bk =
     (let cacheKey = projectId @ '':'' @ customerId
      in case cache_swrFault bk of
           Some msg \<Rightarrow> (Inl msg, bk)
         | None \<Rightarrow>
             let (val, bk1) =
                   (case cache_customerEntitlements bk cacheKey of
                      Some cached \<Rightarrow> (cached, bk)
                    | None \<Rightarrow>
                        (let loaded = getActiveEntitlementsFromDB customerId projectId bk
                         in (loaded,
                             bk\<lparr>cache_customerEntitlements :=
                                  (cache_customerEntitlements bk)(cacheKey \<mapsto> loaded)\<rparr>)))
             in if val = []
                then
                  (let negativeCacheKey =
                         ''negative:'' @ projectId @ '':'' @ customerId @ '':all''
                   in if cache_negativeEntitlements bk1 negativeCacheKey = Some True
                      then (Inr [], bk1)
                      else
                        case computeGrantsForCustomer env customerId projectId
                               (resetClock env) (db_entitlements bk1) of
                          (Inl err, rows) \<Rightarrow> (Inl err, bk1\<lparr>db_entitlements := rows\<rparr>)
                        | (Inr computed, rows) \<Rightarrow>
                            (let entitlements = map toMinimal computed;
                                 bk2 = bk1\<lparr>db_entitlements := rows,
                                           cache_customerEntitlements :=
                                             (cache_customerEntitlements bk1)
                                               (cacheKey \<mapsto> entitlements)\<rparr>;
                                 bk3 = (if entitlements = []
                                        then bk2\<lparr>cache_negativeEntitlements :=
                                                   (cache_negativeEntitlements bk2)
                                                     (negativeCacheKey \<mapsto> True)\<rparr>
                                        else bk2)
                             in (Inr entitlements, bk3)))
                else (Inr val, bk1))"

text \<open>
  \<open>this.cache.customerEntitlement.remove(this.storage.makeKey({...}))\<close> for one
  entitlement of the list. In \<open>resetEntitlements\<close> an absent list (the call failed)
  and an empty one both remove nothing.
\<close>

definition removeFeatureCache ::
  "string \<Rightarrow> string \<Rightarrow> MinimalEntitlement \<Rightarrow> Backend \<Rightarrow> Backend" where
  "removeFeatureCache customerId projectId e bk =
     bk\<lparr>cache_customerEntitlement :=
          (cache_customerEntitlement bk)
            (makeKey customerId projectId (me_featureSlug e) := None)\<rparr>"

text \<open>
  Modelled from the spec: \<open>invalidateAccessControlList\<close> belongs to the customer
  service, which is not in the sources at hand; it invalidates the entry \<open>proj:cust\<close>
  of the namespace \<open>accessControlList\<close>.
\<close>

definition invalidateAccessControlList :: "string \<Rightarrow> string \<Rightarrow> Backend \<Rightarrow> Backend" where
  "invalidateAccessControlList customerId projectId bk =
     bk\<lparr>cache_accessControlList :=
          (cache_accessControlList bk)(projectId @ '':'' @ customerId := None)\<rparr>"

definition resetEntitlements :: "ResetEnv \<Rightarrow> string \<Rightarrow> string \<Rightarrow> Backend \<Rightarrow> Backend" where
  "resetEntitlements env customerId projectId bk =
     (let cacheKey = projectId @ '':'' @ customerId;
          (result, bk1) = getActiveEntitlements env customerId projectId bk;
          entitlementsData = (case result of Inr val \<Rightarrow> val | Inl err \<Rightarrow> []);
          bk2 = fold (removeFeatureCache customerId projectId) entitlementsData bk1;
          bk3 = bk2\<lparr>cache_customerEntitlements :=
                      (cache_customerEntitlements bk2)(cacheKey := None)\<rparr>;
          bk4 = bk3\<lparr>cache_negativeEntitlements :=
                      (cache_negativeEntitlements bk3)
                        (''negative:'' @ projectId @ '':'' @ customerId @ '':all'' := None)\<rparr>;
          bk5 = invalidateAccessControlList customerId projectId bk4;
          bk6 = bk5\<lparr>cache_getCurrentUsage := (cache_getCurrentUsage bk5)(cacheKey := None)\<rparr>;
          bk7 = bk6\<lparr>actorStorage := storage_reset (actorStorage bk6)\<rparr>
      in bk7\<lparr>db_entitlements :=
               filter (\<lambda>e. \<not> (e_customerId e = customerId \<and> e_projectId e = projectId))
                 (db_entitlements bk7)\<rparr>)"

section \<open>Sample inputs\<close>

text \<open>
  Two grants of the feature \<open>api_calls\<close> (a subscription grant and a promotion grant of
  higher priority) and an unlimited manual grant, used to run the definitions.
\<close>

definition grantA :: GrantSnapshot where
  "grantA = \<lparr>g_id = ''grant_A'', g_type = ''subscription'', g_name = ''api_calls'',
             g_effectiveAt = 100, g_expiresAt = Some 5000, g_limit = Some 1000,
             g_priority = 10, g_config = Some ''cfgA''\<rparr>"

definition grantB :: GrantSnapshot where
  "grantB = \<lparr>g_id = ''grant_B'', g_type = ''promotion'', g_name = ''api_calls'',
             g_effectiveAt = 200, g_expiresAt = None, g_limit = Some 500,
             g_priority = 70, g_config = Some ''cfgB''\<rparr>"

definition grantUnlimited :: GrantSnapshot where
  "grantUnlimited = \<lparr>g_id = ''grant_U'', g_type = ''manual'', g_name = ''api_calls'',
             g_effectiveAt = 0, g_expiresAt = None, g_limit = None,
             g_priority = 80, g_config = Some ''cfgU''\<rparr>"

text \<open>
  The same grants with their feature plan versions, as the resolver reads them: none
  of them sets \<open>notifyUsageThreshold\<close>; A has overage strategy \<open>none\<close>, B has
  \<open>last-call\<close>, and the plain grant has no metadata at all.
\<close>

definition fpvUsage :: "Metadata option \<Rightarrow> string \<Rightarrow> FeaturePlanVersion" where
  "fpvUsage md cfg =
     \<lparr>fpv_featureSlug = ''api_calls'', fpv_featureType = Usage,
      fpv_aggregationMethod = AggSum, fpv_usageMode = Some ModeUnit, fpv_config = cfg,
      fpv_metadata = md, fpv_resetConfig = None, fpv_billingConfig = None\<rparr>"

definition metadataWith :: "OverageStrategy \<Rightarrow> Metadata" where
  "metadataWith s =
     \<lparr>md_overageStrategy = Some s, md_notifyUsageThreshold = None, md_blockCustomer = None,
      md_hidden = None, md_realtime = None\<rparr>"

definition fullGrantA :: Grant where
  "fullGrantA =
     \<lparr>x_id = ''grant_A'', x_type = ''subscription'', x_name = ''api_calls'',
      x_effectiveAt = 100, x_expiresAt = Some 5000, x_limit = Some 1000, x_priority = 10,
      x_anchor = 100,
      x_featurePlanVersion = fpvUsage (Some (metadataWith OverageNone)) ''cfgA''\<rparr>"

definition fullGrantB :: Grant where
  "fullGrantB =
     \<lparr>x_id = ''grant_B'', x_type = ''promotion'', x_name = ''api_calls'',
      x_effectiveAt = 200, x_expiresAt = None, x_limit = Some 500, x_priority = 70,
      x_anchor = 200,
      x_featurePlanVersion = fpvUsage (Some (metadataWith OverageLastCall)) ''cfgB''\<rparr>"

definition plainGrant :: Grant where
  "plainGrant =
     \<lparr>x_id = ''grant_P'', x_type = ''subscription'', x_name = ''api_calls'',
      x_effectiveAt = 100, x_expiresAt = None, x_limit = Some 100, x_priority = 10,
      x_anchor = 100, x_featurePlanVersion = fpvUsage None ''cfgP''\<rparr>"

definition sampleEnv :: ResolverEnv where
  "sampleEnv =
     \<lparr>hashStringSHA256 = (\<lambda>gs. concat (map g_id gs)), dateNow = 1000,
      revalidateInterval = 300000\<rparr>"

text \<open>
  An entitlement over the grants A and B under policy \<open>sum\<close>, and one whose
  \<open>expiresAt\<close> is the epoch (the number 0) over the unlimited grant.
\<close>

definition sampleEntitlement :: EntitlementBase where
  "sampleEntitlement =
     \<lparr>e_projectId = ''proj_1'', e_customerId = ''cus_1'', e_featureSlug = ''api_calls'',
      e_featureType = Usage, e_limit = Some 1500, e_aggregationMethod = AggSum,
      e_resetConfig = None, e_mergingPolicy = PolicySum, e_grants = [grantB, grantA],
      e_version = ''v1'', e_effectiveAt = 100, e_expiresAt = Some 5000,
      e_nextRevalidateAt = 301000, e_computedAt = 1000, e_metadata = None\<rparr>"

definition epochEntitlement :: EntitlementBase where
  "epochEntitlement =
     \<lparr>e_projectId = ''proj_1'', e_customerId = ''cus_1'', e_featureSlug = ''api_calls'',
      e_featureType = Flat, e_limit = None, e_aggregationMethod = AggNone,
      e_resetConfig = None, e_mergingPolicy = PolicyReplace, e_grants = [grantUnlimited],
      e_version = ''v1'', e_effectiveAt = 0, e_expiresAt = Some 0,
      e_nextRevalidateAt = 301000, e_computedAt = 1000, e_metadata = None\<rparr>"

text \<open>
  A world for the reconciler. The caller's state refers to the meter object at address
  0, whose usage is 40 and whose snapshot at the last reconciliation is 30. The state
  in storage was written since with usage 55. Analytics returns a total given as a
  parameter and the last record id \<open>01HR\<close>; the watermark ULID is \<open>01HW\<close>.
\<close>

definition sampleServiceEnv :: "rat \<Rightarrow> ServiceEnv" where
  "sampleServiceEnv analyticsTotal =
     \<lparr>calculateCycleWindow = (\<lambda>_. None),
      ulid = (\<lambda>_. ''01HW''),
      getFeaturesUsageCursor =
        (\<lambda>_. Inr \<lparr>r_usage = Some analyticsTotal, r_lastRecordId = Some ''01HR''\<rparr>),
      clockNow = 1000000\<rparr>"

definition sampleMemoryState :: "MeterRef EntitlementState" where
  "sampleMemoryState =
     \<lparr>e_projectId = ''proj_1'', e_customerId = ''cus_1'', e_featureSlug = ''api_calls'',
      e_featureType = Usage, e_limit = Some 1500, e_aggregationMethod = AggSum,
      e_resetConfig = None, e_mergingPolicy = PolicySum, e_grants = [grantB, grantA],
      e_version = ''v1'', e_effectiveAt = 100, e_expiresAt = Some 5000,
      e_nextRevalidateAt = 301000, e_computedAt = 1000, e_metadata = None,
      e_id = ''ent_1'', meter = 0\<rparr>"

definition sampleStoredState :: "MeterState EntitlementState" where
  "sampleStoredState =
     \<lparr>e_projectId = ''proj_1'', e_customerId = ''cus_1'', e_featureSlug = ''api_calls'',
      e_featureType = Usage, e_limit = Some 1500, e_aggregationMethod = AggSum,
      e_resetConfig = None, e_mergingPolicy = PolicySum, e_grants = [grantB, grantA],
      e_version = ''v1'', e_effectiveAt = 100, e_expiresAt = Some 5000,
      e_nextRevalidateAt = 301000, e_computedAt = 1000, e_metadata = None,
      e_id = ''ent_1'',
      meter = \<lparr>usage = 55, snapshotUsage = 30, lastReconciledId = ''01HA'',
                lastUpdated = 900000, lastCycleStart = None\<rparr>\<rparr>"

definition sampleWorld :: World where
  "sampleWorld =
     \<lparr>heap = (\<lambda>_. \<lparr>usage = 40, snapshotUsage = 30, lastReconciledId = ''01HA'',
                     lastUpdated = 800000, lastCycleStart = None\<rparr>),
      storage = \<lparr>st_entries = [''proj_1:cus_1:api_calls'' \<mapsto> sampleStoredState],
                 st_idempotenceKeys = {}, st_usageRecords = [], st_getFault = None\<rparr>,
      logs = []\<rparr>"

text \<open>
  Modelled from the spec: a usage meter of sum behaviour without overage
  (\<open>newUsage = usage + delta\<close>, \<open>remaining = limit - newUsage\<close>, denied with
  \<open>LIMIT_EXCEEDED\<close> when the new usage exceeds the limit), as an instance of the
  class \<open>UsageMeter\<close>, which is not in the sources at hand. It only serves to run
  \<open>reportUsage\<close> on an example, with a waterfall that prices a tenth per unit, a
  request of 5 units under the idempotence key \<open>key_1\<close>, and the stored state before
  and after that request.
\<close>

definition sampleMeterOps :: "(UsageMeterConfig \<times> MeterState) UsageMeterOps" where
  "sampleMeterOps =
     \<lparr>newUsageMeter = (\<lambda>cfg m. (cfg, m)),
      um_consume =
        (\<lambda>(cfg, m) delta now.
           let newUsage = usage m + delta
           in case capacity cfg of
                None \<Rightarrow>
                  (\<lparr>c_allowed = True, c_remaining = 0, c_deniedReason = None,
                    c_message = None, c_overThreshold = False\<rparr>,
                   (cfg, m\<lparr>usage := newUsage, lastUpdated := now\<rparr>))
              | Some cap \<Rightarrow>
                  if newUsage > of_int cap
                  then (\<lparr>c_allowed = False, c_remaining = of_int cap - usage m,
                         c_deniedReason = Some LIMIT_EXCEEDED,
                         c_message = Some ''Limit exceeded'', c_overThreshold = False\<rparr>,
                        (cfg, m))
                  else (\<lparr>c_allowed = True, c_remaining = of_int cap - newUsage,
                         c_deniedReason = None, c_message = None, c_overThreshold = False\<rparr>,
                        (cfg, m\<lparr>usage := newUsage, lastUpdated := now\<rparr>))),
      um_toPersist = snd\<rparr>"

definition sampleReportEnv :: ReportEnv where
  "sampleReportEnv =
     \<lparr>calculateWaterfallPrice = (\<lambda>gs u ft. Inr \<lparr>wr_totalPrice = u / 10, wr_items = []\<rparr>),
      freshUlid = ''01HU'', reportClock = 1000000\<rparr>"

definition sampleRequest :: ReportUsageRequest where
  "sampleRequest =
     \<lparr>rq_customerId = ''cus_1'', rq_projectId = ''proj_1'', rq_featureSlug = ''api_calls'',
      rq_usage = 5, rq_timestamp = 300, rq_idempotenceKey = ''key_1'',
      rq_requestId = ''req_1''\<rparr>"

definition sampleActor :: Actor where
  "sampleActor = \<lparr>a_storage = storage sampleWorld, a_effects = []\<rparr>"

definition sampleStoredStateAfter :: "MeterState EntitlementState" where
  "sampleStoredStateAfter =
     sampleStoredState\<lparr>meter := \<lparr>usage = 60, snapshotUsage = 30, lastReconciledId = ''01HA'',
                                   lastUpdated = 300, lastCycleStart = None\<rparr>\<rparr>"

text \<open>
  A back end after a customer without grants was checked for the feature \<open>api_calls\<close>:
  \<open>getActiveEntitlement\<close> has memoised the miss under the key
  \<open>negative:proj_1:cus_1:api_calls\<close>. The customer then gets a grant, so that
  recomputing the grants yields an entitlement for \<open>api_calls\<close>.
\<close>

definition sampleComputedEntitlement :: Entitlement where
  "sampleComputedEntitlement =
     \<lparr>e_projectId = ''proj_1'', e_customerId = ''cus_1'', e_featureSlug = ''api_calls'',
      e_featureType = Usage, e_limit = Some 1000, e_aggregationMethod = AggSum,
      e_resetConfig = None, e_mergingPolicy = PolicySum, e_grants = [grantA],
      e_version = ''v2'', e_effectiveAt = 100, e_expiresAt = Some 5000,
      e_nextRevalidateAt = 301000, e_computedAt = 1000, e_metadata = None,
      e_id = ''ent_1''\<rparr>"

definition sampleResetEnv :: ResetEnv where
  "sampleResetEnv =
     \<lparr>computeGrantsForCustomer =
        (\<lambda>customerId projectId now rows.
           (Inr [sampleComputedEntitlement], rows @ [sampleComputedEntitlement])),
      resetClock = 1000000\<rparr>"

definition staleNegativeBackend :: Backend where
  "staleNegativeBackend =
     \<lparr>cache_customerEntitlement = Map.empty,
      cache_customerEntitlements = Map.empty,
      cache_negativeEntitlements = [''negative:proj_1:cus_1:api_calls'' \<mapsto> True],
      cache_accessControlList = Map.empty,
      cache_getCurrentUsage = Map.empty,
      cache_swrFault = None,
      db_entitlements = [],
      actorStorage =
        \<lparr>st_entries = Map.empty, st_idempotenceKeys = {}, st_usageRecords = [],
         st_getFault = None\<rparr>\<rparr>"


section \<open>Properties of \<open>mergeGrants\<close>\<close>

lemma sum_list_sortByPriority:
  "sum_list (map (f :: GrantSnapshot \<Rightarrow> int) (sortByPriority gs)) = sum_list (map f gs)"
proof -
  have "mset (map f (sortByPriority gs)) = mset (map f gs)"
    by (simp add: sortByPriority_def)
  then show ?thesis by (metis sum_mset_sum_list)
qed

lemma set_sortByPriority: "set (sortByPriority gs) = set gs"
  by (simp add: sortByPriority_def)

lemma sortByPriority_Nil_iff: "sortByPriority gs = [] \<longleftrightarrow> gs = []"
  by (metis set_sortByPriority set_empty)

lemma Math_min_Min: "xs \<noteq> [] \<Longrightarrow> Math_min xs = Min (set xs)"
proof (cases xs)
  case Nil
  assume "xs \<noteq> []"
  with Nil show ?thesis by simp
next
  case (Cons a list)
  then show ?thesis using Min.set_eq_fold [of a list] by simp
qed

lemma Math_max_Max: "xs \<noteq> [] \<Longrightarrow> Math_max xs = Max (set xs)"
proof (cases xs)
  case Nil
  assume "xs \<noteq> []"
  with Nil show ?thesis by simp
next
  case (Cons a list)
  then show ?thesis using Max.set_eq_fold [of a list] by simp
qed

lemma fold_maxWithNegInf:
  "fold maxWithNegInf xs acc =
     (let S = {e. Some e \<in> set xs} \<union> set_option acc in if S = {} then None else Some (Max S))"
proof (induction xs arbitrary: acc)
  case Nil
  show ?case by (cases acc) simp_all
next
  case (Cons x xs)
  have fin: "finite {e. Some e \<in> set xs}"
  proof -
    have "{e. Some e \<in> set xs} \<subseteq> the ` set xs" by force
    then show ?thesis by (rule finite_subset) simp
  qed
  show ?case
  proof (cases x)
    case None
    then have "{e. Some e \<in> set (x # xs)} = {e. Some e \<in> set xs}" by auto
    with None Cons.IH [of acc] show ?thesis by simp
  next
    case (Some a)
    have split: "{e. Some e \<in> set (x # xs)} = insert a {e. Some e \<in> set xs}"
      using Some by auto
    show ?thesis
    proof (cases acc)
      case None
      with Some split Cons.IH [of "Some a"] show ?thesis by (simp add: Let_def)
    next
      case (Some b)
      have "Max (insert (max a b) {e. Some e \<in> set xs}) = Max (insert a (insert b {e. Some e \<in> set xs}))"
      proof (cases "{e. Some e \<in> set xs} = {}")
        case True
        then show ?thesis by simp
      next
        case False
        then show ?thesis using fin by (simp add: max.assoc)
      qed
      with Some \<open>x = Some a\<close> split Cons.IH [of "Some (max a b)"] show ?thesis
        by (simp add: Let_def insert_commute)
    qed
  qed
qed

lemma maxEnd_char:
  "maxEnd gs = (if \<forall>g\<in>set gs. g_expiresAt g = None then None
                else Some (Max {e. \<exists>g\<in>set gs. g_expiresAt g = Some e}))"
proof -
  have eq: "{e. Some e \<in> set (map g_expiresAt gs)} = {e. \<exists>g\<in>set gs. g_expiresAt g = Some e}"
    by force
  have "({e. \<exists>g\<in>set gs. g_expiresAt g = Some e} = {}) = (\<forall>g\<in>set gs. g_expiresAt g = None)"
    by (simp add: Collect_empty_eq) (metis not_None_eq option.distinct(1))
  then show ?thesis
    unfolding maxEnd_def fold_maxWithNegInf eq by (simp add: Let_def)
qed

lemma sorted_desc_sortByPriority:
  "sorted_wrt (\<lambda>a b. g_priority b \<le> g_priority a) (sortByPriority gs)"
proof -
  have "sorted (map (\<lambda>g. - g_priority g) (sortByPriority gs))"
    unfolding sortByPriority_def by (rule sorted_sort_key)
  then show ?thesis by (simp add: sorted_map)
qed

lemma find_first_priority:
  assumes "find P (sortByPriority gs) = Some w" and "g \<in> set gs" and "P g"
  shows "g_priority g \<le> g_priority w"
proof -
  let ?xs = "sortByPriority gs"
  from assms(1) obtain i where i: "i < length ?xs" "w = ?xs ! i" "\<forall>j<i. \<not> P (?xs ! j)"
    unfolding find_Some_iff by blast
  from assms(2) have "g \<in> set ?xs" by (simp add: set_sortByPriority)
  then obtain k where k: "k < length ?xs" "g = ?xs ! k" by (metis in_set_conv_nth)
  with i(3) assms(3) have "\<not> k < i" by blast
  then have "i = k \<or> i < k" by arith
  then show ?thesis
  proof
    assume "i = k"
    with i k show ?thesis by simp
  next
    assume "i < k"
    with sorted_desc_sortByPriority [of gs] k(1) have "g_priority (?xs ! k) \<le> g_priority (?xs ! i)"
      by (simp add: sorted_wrt_iff_nth_less)
    with i k show ?thesis by simp
  qed
qed

lemma set_nonNullLimits:
  "set (nonNullLimits gs) = {l. \<exists>g\<in>set gs. g_limit g = Some l}"
  unfolding nonNullLimits_def by (induction gs) (auto split: option.splits)

lemma findWinning_found:
  assumes "g \<in> set gs" and "g_limit g = target"
  shows "\<exists>w. findWinning target gs = Some w \<and> find (\<lambda>g. g_limit g = target) gs = Some w
             \<and> w \<in> set gs \<and> g_limit w = target"
proof -
  from assms have "find (\<lambda>g. g_limit g = target) gs \<noteq> None"
    by (auto simp: find_None_iff)
  then obtain w where w: "find (\<lambda>g. g_limit g = target) gs = Some w" by blast
  then have "w \<in> set gs" "g_limit w = target"
    by (auto simp: find_Some_iff)
  with w show ?thesis by (simp add: findWinning_def)
qed

lemma sort_AB: "sortByPriority [grantA, grantB] = [grantB, grantA]"
  by (simp add: sortByPriority_def grantA_def grantB_def)

text \<open>
  Claim C4, as amended. For every non-empty grant list merged under policy \<open>sum\<close>,
  \<open>mergeGrants\<close> returns as limit the sum over all grants of the limit (null counted
  as 0) when that sum is positive and null otherwise (\<open>limit > 0 ? limit : null\<close>);
  \<open>effectiveAt\<close> is the minimum \<open>effectiveAt\<close> of the grants; \<open>expiresAt\<close> is the
  maximum \<open>expiresAt\<close> of the grants that set one, null when none does; the grants
  snapshot holds all input grants, stably sorted by descending priority.
\<close>

theorem mergeGrants_sum_amended:
  assumes "grants \<noteq> []"
    and "derivePolicy explicitPolicy featureType usageMode = PolicySum"
  shows "m_limit (mergeGrants grants featureType usageMode explicitPolicy) =
           (if 0 < sum_list (map limitOrZero grants)
            then Some (sum_list (map limitOrZero grants)) else None)
       \<and> m_effectiveAt (mergeGrants grants featureType usageMode explicitPolicy) =
           Min (g_effectiveAt ` set grants)
       \<and> m_expiresAt (mergeGrants grants featureType usageMode explicitPolicy) =
           (if \<forall>g\<in>set grants. g_expiresAt g = None then None
            else Some (Max {e. \<exists>g\<in>set grants. g_expiresAt g = Some e}))
       \<and> m_grants (mergeGrants grants featureType usageMode explicitPolicy) =
           sortByPriority grants
       \<and> mset (m_grants (mergeGrants grants featureType usageMode explicitPolicy)) = mset grants
       \<and> sorted_wrt (\<lambda>a b. g_priority b \<le> g_priority a)
           (m_grants (mergeGrants grants featureType usageMode explicitPolicy))
       \<and> m_mergingPolicy (mergeGrants grants featureType usageMode explicitPolicy) = PolicySum"
proof -
  let ?s = "sortByPriority grants"
  have r: "mergeGrants grants featureType usageMode explicitPolicy =
      \<lparr>m_limit = (if 0 < sum_list (map limitOrZero ?s) then Some (sum_list (map limitOrZero ?s)) else None),
       m_grants = ?s, m_effectiveAt = Math_min (map g_effectiveAt ?s),
       m_expiresAt = maxEnd ?s, m_mergingPolicy = PolicySum\<rparr>"
    using assms by (simp add: mergeGrants_def Let_def)
  have ne: "map g_effectiveAt ?s \<noteq> []"
    using assms(1) by (simp add: sortByPriority_Nil_iff)
  have mn: "Math_min (map g_effectiveAt ?s) = Min (g_effectiveAt ` set grants)"
    using Math_min_Min [OF ne] by (simp add: set_sortByPriority)
  have mx: "maxEnd ?s = (if \<forall>g\<in>set grants. g_expiresAt g = None then None
            else Some (Max {e. \<exists>g\<in>set grants. g_expiresAt g = Some e}))"
    by (simp only: maxEnd_char set_sortByPriority)
  have ms: "mset ?s = mset grants" by (simp add: sortByPriority_def)
  show ?thesis
    unfolding r using mn mx ms sorted_desc_sortByPriority [of grants]
    by (simp add: sum_list_sortByPriority)
qed

text \<open>The amended claim at the two grants A (limit 1000) and B (limit 500).\<close>

theorem mergeGrants_sum_amended_witness:
  "[grantA, grantB] \<noteq> [] \<and> derivePolicy None (Some Usage) (Some ModeUnit) = PolicySum
   \<and> m_limit (mergeGrants [grantA, grantB] (Some Usage) (Some ModeUnit) None) = Some 1500
   \<and> m_grants (mergeGrants [grantA, grantB] (Some Usage) (Some ModeUnit) None) = [grantB, grantA]
   \<and> m_effectiveAt (mergeGrants [grantA, grantB] (Some Usage) (Some ModeUnit) None) = 100
   \<and> m_expiresAt (mergeGrants [grantA, grantB] (Some Usage) (Some ModeUnit) None) = Some 5000"
proof -
  have ne: "[grantA, grantB] \<noteq> []" by simp
  have p: "derivePolicy None (Some Usage) (Some ModeUnit) = PolicySum" by simp
  have ex: "{e. \<exists>g\<in>set [grantA, grantB]. g_expiresAt g = Some e} = {5000}"
    by (auto simp: grantA_def grantB_def)
  from mergeGrants_sum_amended [OF ne p] ne p show ?thesis
    by (simp add: sort_AB ex) (simp add: limitOrZero_def grantA_def grantB_def)
qed

text \<open>
  Claim C4 as stated fails: a single grant without limit sums to 0, and the merged
  limit is null, not 0.
\<close>

theorem mergeGrants_sum_null_counterexample:
  "m_limit (mergeGrants [grantUnlimited] (Some Usage) (Some ModeUnit) None)
     \<noteq> Some (sum_list (map limitOrZero [grantUnlimited]))"
  by (simp add: mergeGrants_def sortByPriority_def limitOrZero_def grantUnlimited_def Let_def)

text \<open>
  Claim C5. For every non-empty grant list merged under policy \<open>max\<close>, \<open>mergeGrants\<close>
  keeps exactly one grant \<open>w\<close>: the first grant in descending priority order whose
  limit equals the returned limit, so no grant with that limit has a higher priority.
  The returned limit is the maximum of the non-null limits (every non-null limit is
  below it; it is null only when no grant has a limit), and \<open>effectiveAt\<close> and
  \<open>expiresAt\<close> are those of \<open>w\<close>.
\<close>

theorem mergeGrants_max:
  assumes "grants \<noteq> []"
    and "derivePolicy explicitPolicy featureType usageMode = PolicyMax"
  shows "\<exists>w. m_grants (mergeGrants grants featureType usageMode explicitPolicy) = [w]
           \<and> w \<in> set grants
           \<and> find (\<lambda>g. g_limit g = m_limit (mergeGrants grants featureType usageMode explicitPolicy))
                (sortByPriority grants) = Some w
           \<and> g_limit w = m_limit (mergeGrants grants featureType usageMode explicitPolicy)
           \<and> (\<forall>g\<in>set grants.
                 g_limit g = m_limit (mergeGrants grants featureType usageMode explicitPolicy)
                 \<longrightarrow> g_priority g \<le> g_priority w)
           \<and> (\<forall>g\<in>set grants. \<forall>l. g_limit g = Some l \<longrightarrow>
                 (\<exists>m. m_limit (mergeGrants grants featureType usageMode explicitPolicy) = Some m
                      \<and> l \<le> m))
           \<and> m_effectiveAt (mergeGrants grants featureType usageMode explicitPolicy) = g_effectiveAt w
           \<and> m_expiresAt (mergeGrants grants featureType usageMode explicitPolicy) = g_expiresAt w
           \<and> m_mergingPolicy (mergeGrants grants featureType usageMode explicitPolicy) = PolicyMax"
proof -
  let ?s = "sortByPriority grants"
  let ?limits = "nonNullLimits ?s"
  let ?maxLimit = "if ?limits \<noteq> [] then Some (Math_max ?limits) else None"
  have setl: "set ?limits = {l. \<exists>g\<in>set grants. g_limit g = Some l}"
    by (simp add: set_nonNullLimits set_sortByPriority)
  have "\<exists>g\<in>set ?s. g_limit g = ?maxLimit"
  proof (cases "?limits = []")
    case True
    then have "\<forall>g\<in>set grants. g_limit g = None"
      using setl by (metis (mono_tags, lifting) empty_iff empty_set mem_Collect_eq not_None_eq)
    moreover from assms(1) obtain g where "g \<in> set grants" by (cases grants) auto
    ultimately show ?thesis using True by (auto simp: set_sortByPriority)
  next
    case False
    then have "Max (set ?limits) \<in> set ?limits" by (intro Max_in) simp_all
    with setl obtain g where "g \<in> set grants" "g_limit g = Some (Max (set ?limits))" by auto
    with False show ?thesis by (auto simp: Math_max_Max set_sortByPriority)
  qed
  then obtain g where g: "g \<in> set ?s" "g_limit g = ?maxLimit" by blast
  from findWinning_found [OF g] obtain w where
    w: "findWinning ?maxLimit ?s = Some w" "find (\<lambda>g. g_limit g = ?maxLimit) ?s = Some w"
       "w \<in> set ?s" "g_limit w = ?maxLimit" by blast
  have r: "mergeGrants grants featureType usageMode explicitPolicy =
             singleGrantResult ?maxLimit w PolicyMax"
    using assms w(1) by (simp add: mergeGrants_def Let_def)
  have lim: "m_limit (mergeGrants grants featureType usageMode explicitPolicy) = ?maxLimit"
    unfolding r by (simp add: singleGrantResult_def)
  have prio: "\<forall>g\<in>set grants. g_limit g = ?maxLimit \<longrightarrow> g_priority g \<le> g_priority w"
    using find_first_priority [OF w(2)] by blast
  have upper: "\<forall>g\<in>set grants. \<forall>l. g_limit g = Some l \<longrightarrow> (\<exists>m. ?maxLimit = Some m \<and> l \<le> m)"
  proof (intro ballI allI impI)
    fix g l assume "g \<in> set grants" "g_limit g = Some l"
    then have l: "l \<in> set ?limits" using setl by auto
    then have ne: "?limits \<noteq> []" by auto
    from l have "l \<le> Max (set ?limits)" by simp
    with ne show "\<exists>m. ?maxLimit = Some m \<and> l \<le> m" by (simp add: Math_max_Max)
  qed
  have "m_grants (mergeGrants grants featureType usageMode explicitPolicy) = [w]"
    and "m_effectiveAt (mergeGrants grants featureType usageMode explicitPolicy) = g_effectiveAt w"
    and "m_expiresAt (mergeGrants grants featureType usageMode explicitPolicy) = g_expiresAt w"
    and "m_mergingPolicy (mergeGrants grants featureType usageMode explicitPolicy) = PolicyMax"
    unfolding r by (simp_all add: singleGrantResult_def)
  moreover have "w \<in> set grants" using w(3) by (simp add: set_sortByPriority)
  ultimately show ?thesis using w(2,4) prio upper unfolding lim by blast
qed

text \<open>The claim at grants A (limit 1000, priority 10) and B (limit 500, priority 70).\<close>

theorem mergeGrants_max_witness:
  "[grantA, grantB] \<noteq> [] \<and> derivePolicy None (Some Tier) None = PolicyMax
   \<and> m_grants (mergeGrants [grantA, grantB] (Some Tier) None None) = [grantA]
   \<and> m_limit (mergeGrants [grantA, grantB] (Some Tier) None None) = Some 1000"
proof -
  have ne: "[grantA, grantB] \<noteq> []" by simp
  have p: "derivePolicy None (Some Tier) None = PolicyMax" by simp
  from mergeGrants_max [OF ne p] obtain w where
    w: "m_grants (mergeGrants [grantA, grantB] (Some Tier) None None) = [w]"
       "w \<in> set [grantA, grantB]"
       "g_limit w = m_limit (mergeGrants [grantA, grantB] (Some Tier) None None)"
       "\<forall>g\<in>set [grantA, grantB]. \<forall>l. g_limit g = Some l \<longrightarrow>
          (\<exists>m. m_limit (mergeGrants [grantA, grantB] (Some Tier) None None) = Some m \<and> l \<le> m)"
    by blast
  from w(4) obtain m where m: "m_limit (mergeGrants [grantA, grantB] (Some Tier) None None) = Some m"
     "1000 \<le> m" by (auto simp: grantA_def)
  from w(2) have "w = grantA \<or> w = grantB" by simp
  with w(3) m have "w = grantA" by (auto simp: grantB_def)
  with w(1,3) ne p show ?thesis by (simp add: grantA_def)
qed

section \<open>Properties of \<open>validateEntitlementState\<close>\<close>

lemma activeGrants_Nil:
  "activeGrants state now = [] \<longleftrightarrow> \<not> (\<exists>g\<in>set (e_grants state). isGrantActive g now)"
  by (simp add: activeGrants_def sortByPriority_Nil_iff filter_empty_conv)

lemma isGrantActive_iff:
  "isGrantActive g now \<longleftrightarrow>
     (g_effectiveAt g \<le> now \<and> (\<forall>grantEnd. g_expiresAt g = Some grantEnd \<longrightarrow> now < grantEnd))"
  by (auto simp: isGrantActive_def split: option.splits)

text \<open>
  Claim C7, as amended. \<open>validateEntitlementState(state, now)\<close> returns an error if and
  only if \<open>state.effectiveAt\<close> is not 0 and \<open>now < state.effectiveAt\<close>, or
  \<open>state.expiresAt\<close> is set, is not 0 and \<open>now > state.expiresAt\<close>, or no grant of
  \<open>state.grants\<close> is active at \<open>now\<close> (active: \<open>effectiveAt \<le> now < expiresAt\<close>, a missing
  \<open>expiresAt\<close> being infinity). Otherwise the active grants are exactly the grants of
  the state that are active at \<open>now\<close>, and the result is the state with \<open>effectiveAt\<close>,
  \<open>expiresAt\<close> and \<open>grants\<close> replaced by the result of merging the active grants under
  the state's merging policy.
\<close>

theorem validateEntitlementState_amended:
  "((\<exists>err. validateEntitlementState state now = Inl err) \<longleftrightarrow>
      (e_effectiveAt state \<noteq> 0 \<and> now < e_effectiveAt state)
      \<or> (\<exists>expiresAt. e_expiresAt state = Some expiresAt \<and> expiresAt \<noteq> 0 \<and> now > expiresAt)
      \<or> \<not> (\<exists>g\<in>set (e_grants state).
              g_effectiveAt g \<le> now
              \<and> (\<forall>grantEnd. g_expiresAt g = Some grantEnd \<longrightarrow> now < grantEnd)))
   \<and> (\<not> (\<exists>err. validateEntitlementState state now = Inl err) \<longrightarrow>
        set (activeGrants state now) = {g \<in> set (e_grants state). g_effectiveAt g \<le> now
              \<and> (\<forall>grantEnd. g_expiresAt g = Some grantEnd \<longrightarrow> now < grantEnd)}
        \<and> validateEntitlementState state now =
          Inr (state\<lparr>e_effectiveAt :=
                       m_effectiveAt (mergeGrants (activeGrants state now)
                          (Some (e_featureType state)) None (Some (e_mergingPolicy state))),
                     e_expiresAt :=
                       m_expiresAt (mergeGrants (activeGrants state now)
                          (Some (e_featureType state)) None (Some (e_mergingPolicy state))),
                     e_grants :=
                       m_grants (mergeGrants (activeGrants state now)
                          (Some (e_featureType state)) None (Some (e_mergingPolicy state)))\<rparr>))"
proof (intro conjI impI)
  show "(\<exists>err. validateEntitlementState state now = Inl err) \<longleftrightarrow>
      (e_effectiveAt state \<noteq> 0 \<and> now < e_effectiveAt state)
      \<or> (\<exists>expiresAt. e_expiresAt state = Some expiresAt \<and> expiresAt \<noteq> 0 \<and> now > expiresAt)
      \<or> \<not> (\<exists>g\<in>set (e_grants state).
              g_effectiveAt g \<le> now
              \<and> (\<forall>grantEnd. g_expiresAt g = Some grantEnd \<longrightarrow> now < grantEnd))"
    unfolding isGrantActive_iff [symmetric]
    by (auto simp: validateEntitlementState_def Let_def activeGrants_Nil split: option.splits)
next
  show "set (activeGrants state now) = {g \<in> set (e_grants state). g_effectiveAt g \<le> now
              \<and> (\<forall>grantEnd. g_expiresAt g = Some grantEnd \<longrightarrow> now < grantEnd)}"
    unfolding isGrantActive_iff [symmetric]
    by (simp add: activeGrants_def set_sortByPriority)
next
  assume "\<not> (\<exists>err. validateEntitlementState state now = Inl err)"
  then show "validateEntitlementState state now =
          Inr (state\<lparr>e_effectiveAt :=
                       m_effectiveAt (mergeGrants (activeGrants state now)
                          (Some (e_featureType state)) None (Some (e_mergingPolicy state))),
                     e_expiresAt :=
                       m_expiresAt (mergeGrants (activeGrants state now)
                          (Some (e_featureType state)) None (Some (e_mergingPolicy state))),
                     e_grants :=
                       m_grants (mergeGrants (activeGrants state now)
                          (Some (e_featureType state)) None (Some (e_mergingPolicy state)))\<rparr>)"
    by (auto simp: validateEntitlementState_def Let_def split: option.splits if_splits)
qed

lemma activeGrants_sample: "activeGrants sampleEntitlement 300 = [grantB, grantA]"
  by (simp add: activeGrants_def sampleEntitlement_def isGrantActive_def sortByPriority_def
      grantA_def grantB_def)

lemma mergeGrants_sample:
  "mergeGrants [grantB, grantA] (Some Usage) None (Some PolicySum) =
     \<lparr>m_limit = Some 1500, m_grants = [grantB, grantA], m_effectiveAt = 100,
      m_expiresAt = Some 5000, m_mergingPolicy = PolicySum\<rparr>"
  by (simp add: mergeGrants_def Let_def sortByPriority_def maxEnd_def limitOrZero_def
      grantA_def grantB_def)

text \<open>
  The amended claim at the entitlement over grants A and B: valid at time 300, where
  both grants are active and the merge gives back the same window and grants, and
  rejected at time 50, before the entitlement starts.
\<close>

theorem validateEntitlementState_amended_witness:
  "\<not> (\<exists>err. validateEntitlementState sampleEntitlement 300 = Inl err)
   \<and> validateEntitlementState sampleEntitlement 300 = Inr sampleEntitlement
   \<and> (\<exists>err. validateEntitlementState sampleEntitlement 50 = Inl err)"
proof -
  have a: "\<not> (\<exists>err. validateEntitlementState sampleEntitlement 300 = Inl err)"
    using validateEntitlementState_amended [of sampleEntitlement 300]
    by (simp add: sampleEntitlement_def grantA_def grantB_def)
  have b: "validateEntitlementState sampleEntitlement 300 = Inr sampleEntitlement"
    using validateEntitlementState_amended [of sampleEntitlement 300] a
    by (simp add: activeGrants_sample) (simp add: sampleEntitlement_def mergeGrants_sample)
  have c: "\<exists>err. validateEntitlementState sampleEntitlement 50 = Inl err"
    using validateEntitlementState_amended [of sampleEntitlement 50]
    by (simp add: sampleEntitlement_def)
  from a b c show ?thesis by blast
qed

text \<open>
  Claim C7 as stated fails: an entitlement whose \<open>expiresAt\<close> is 0 is set and lies
  before \<open>now = 5\<close>, yet the truthiness guard skips the expiry check and the state is
  accepted (its only grant is open-ended and active).
\<close>

theorem validateEntitlementState_epoch_counterexample:
  "e_expiresAt epochEntitlement = Some 0 \<and> (0::int) < 5
   \<and> validateEntitlementState epochEntitlement 5 = Inr (epochEntitlement\<lparr>e_expiresAt := None\<rparr>)"
  by (simp add: validateEntitlementState_def epochEntitlement_def activeGrants_def
      isGrantActive_def sortByPriority_def grantUnlimited_def mergeGrants_def Let_def
      singleGrantResult_def)

section \<open>Properties of \<open>computeEntitlementState\<close>\<close>

lemma findWinning_in_set:
  "gs \<noteq> [] \<Longrightarrow> \<exists>w. findWinning target gs = Some w \<and> w \<in> set gs"
  by (cases gs) (auto simp: findWinning_def find_Some_iff split: option.splits)

lemma mergeGrants_kept:
  assumes "grants \<noteq> []"
  shows "m_grants (mergeGrants grants featureType usageMode explicitPolicy) \<noteq> []
       \<and> set (m_grants (mergeGrants grants featureType usageMode explicitPolicy)) \<subseteq> set grants"
proof -
  let ?s = "sortByPriority grants"
  have ne: "?s \<noteq> []" using assms by (simp add: sortByPriority_Nil_iff)
  then obtain h t where ht: "?s = h # t" by (cases ?s) auto
  then have h: "h \<in> set grants" by (metis list.set_intros(1) set_sortByPriority)
  show ?thesis
  proof (cases "derivePolicy explicitPolicy featureType usageMode")
    case PolicySum
    with assms ne show ?thesis by (simp add: mergeGrants_def Let_def set_sortByPriority)
  next
    case PolicyMax
    let ?t = "if nonNullLimits ?s \<noteq> [] then Some (Math_max (nonNullLimits ?s)) else None"
    from findWinning_in_set [OF ne, of ?t] obtain w where
      "findWinning ?t ?s = Some w" "w \<in> set ?s" by blast
    with PolicyMax assms show ?thesis
      by (simp add: mergeGrants_def Let_def singleGrantResult_def set_sortByPriority)
  next
    case PolicyMin
    let ?t = "if nonNullLimits ?s \<noteq> [] then Some (Math_min (nonNullLimits ?s)) else None"
    from findWinning_in_set [OF ne, of ?t] obtain w where
      "findWinning ?t ?s = Some w" "w \<in> set ?s" by blast
    with PolicyMin assms show ?thesis
      by (simp add: mergeGrants_def Let_def singleGrantResult_def set_sortByPriority)
  next
    case PolicyReplace
    with assms ht h show ?thesis
      by (simp add: mergeGrants_def Let_def singleGrantResult_def)
  qed
qed

lemma mergeOverageStrategy_spec:
  "mergeOverageStrategy policy grants winner =
     (if policy = PolicySum \<or> policy = PolicyMax then
        (if \<exists>g\<in>set grants. grantOverageStrategy g = Some OverageAlways then OverageAlways
         else if \<exists>g\<in>set grants. grantOverageStrategy g = Some OverageLastCall
         then OverageLastCall
         else (case grantOverageStrategy winner of None \<Rightarrow> OverageNone | Some s \<Rightarrow> s))
      else if policy = PolicyMin then
        (if \<exists>g\<in>set grants. grantOverageStrategy g = Some OverageNone then OverageNone
         else if \<exists>g\<in>set grants. grantOverageStrategy g = Some OverageLastCall
         then OverageLastCall
         else OverageAlways)
      else (case grantOverageStrategy winner of None \<Rightarrow> OverageNone | Some s \<Rightarrow> s))"
  by (simp add: mergeOverageStrategy_def Let_def list_ex_iff)

lemma computeEntitlementState_Inr:
  assumes "computeEntitlementState env projectId customerId grants = Inr ent"
  shows "\<exists>best rest.
           sort_key (\<lambda>g. - x_priority g) grants = best # rest
         \<and> e_grants ent = m_grants (mergeGrants (map toSnapshot (best # rest))
               (Some (fpv_featureType (x_featurePlanVersion best)))
               (fpv_usageMode (x_featurePlanVersion best)) None)
         \<and> e_mergingPolicy ent = m_mergingPolicy (mergeGrants (map toSnapshot (best # rest))
               (Some (fpv_featureType (x_featurePlanVersion best)))
               (fpv_usageMode (x_featurePlanVersion best)) None)
         \<and> e_metadata ent =
             Some (winningGrantMetadata
                (winningGrantOf grants best (mergeGrants (map toSnapshot (best # rest))
                   (Some (fpv_featureType (x_featurePlanVersion best)))
                   (fpv_usageMode (x_featurePlanVersion best)) None))
                (mergeOverageStrategy (e_mergingPolicy ent) grants
                   (winningGrantOf grants best (mergeGrants (map toSnapshot (best # rest))
                     (Some (fpv_featureType (x_featurePlanVersion best)))
                     (fpv_usageMode (x_featurePlanVersion best)) None))))"
  using assms
  by (auto simp: computeEntitlementState_def Let_def split: list.splits if_splits)

lemma winningGrantOf_found:
  assumes "m_grants merged = w0 # ws" and "w0 \<in> toSnapshot ` set grants"
  shows "find (\<lambda>g. x_id g = g_id w0) grants = Some (winningGrantOf grants best merged)
       \<and> winningGrantOf grants best merged \<in> set grants"
proof -
  from assms(2) obtain g where "g \<in> set grants" "x_id g = g_id w0"
    by (auto simp: toSnapshot_def)
  then have "find (\<lambda>g. x_id g = g_id w0) grants \<noteq> None" by (auto simp: find_None_iff)
  then obtain w where w: "find (\<lambda>g. x_id g = g_id w0) grants = Some w" by blast
  then have "w \<in> set grants" by (auto simp: find_Some_iff)
  with w assms(1) show ?thesis by (simp add: winningGrantOf_def)
qed

text \<open>
  Claim C6. The merged overage strategy computed by the resolver is: under policy
  \<open>sum\<close> or \<open>max\<close>, \<open>always\<close> if any grant has \<open>always\<close>, else \<open>last-call\<close> if any grant
  has \<open>last-call\<close>, else the winning grant's strategy (\<open>none\<close> when it has none);
  under policy \<open>min\<close>, \<open>none\<close> if any grant has \<open>none\<close>, else \<open>last-call\<close> if any has
  \<open>last-call\<close>, else \<open>always\<close>; under policy \<open>replace\<close>, the winning grant's strategy.
  Whenever \<open>computeEntitlementState\<close> succeeds, the entitlement's metadata carries
  that strategy for the entitlement's merging policy and the winning grant, which is
  the input grant with the id of the first grant kept by the merge.
\<close>

theorem computeEntitlementState_overageStrategy:
  "(\<forall>policy winner.
      mergeOverageStrategy policy grants winner =
        (if policy = PolicySum \<or> policy = PolicyMax then
           (if \<exists>g\<in>set grants. grantOverageStrategy g = Some OverageAlways then OverageAlways
            else if \<exists>g\<in>set grants. grantOverageStrategy g = Some OverageLastCall
            then OverageLastCall
            else (case grantOverageStrategy winner of None \<Rightarrow> OverageNone | Some s \<Rightarrow> s))
         else if policy = PolicyMin then
           (if \<exists>g\<in>set grants. grantOverageStrategy g = Some OverageNone then OverageNone
            else if \<exists>g\<in>set grants. grantOverageStrategy g = Some OverageLastCall
            then OverageLastCall
            else OverageAlways)
         else (case grantOverageStrategy winner of None \<Rightarrow> OverageNone | Some s \<Rightarrow> s)))
   \<and> (\<forall>ent. computeEntitlementState env projectId customerId grants = Inr ent \<longrightarrow>
        (\<exists>winner kept others md.
            e_grants ent = kept # others
          \<and> find (\<lambda>g. x_id g = g_id kept) grants = Some winner
          \<and> winner \<in> set grants
          \<and> e_metadata ent = Some md
          \<and> md_overageStrategy md =
              Some (mergeOverageStrategy (e_mergingPolicy ent) grants winner)))"
proof (intro conjI allI impI)
  fix policy winner
  show "mergeOverageStrategy policy grants winner =
        (if policy = PolicySum \<or> policy = PolicyMax then
           (if \<exists>g\<in>set grants. grantOverageStrategy g = Some OverageAlways then OverageAlways
            else if \<exists>g\<in>set grants. grantOverageStrategy g = Some OverageLastCall
            then OverageLastCall
            else (case grantOverageStrategy winner of None \<Rightarrow> OverageNone | Some s \<Rightarrow> s))
         else if policy = PolicyMin then
           (if \<exists>g\<in>set grants. grantOverageStrategy g = Some OverageNone then OverageNone
            else if \<exists>g\<in>set grants. grantOverageStrategy g = Some OverageLastCall
            then OverageLastCall
            else OverageAlways)
         else (case grantOverageStrategy winner of None \<Rightarrow> OverageNone | Some s \<Rightarrow> s))"
    by (rule mergeOverageStrategy_spec)
next
  fix ent
  assume "computeEntitlementState env projectId customerId grants = Inr ent"
  from computeEntitlementState_Inr [OF this] obtain best rest where
    srt: "sort_key (\<lambda>g. - x_priority g) grants = best # rest"
    and gr: "e_grants ent = m_grants (mergeGrants (map toSnapshot (best # rest))
               (Some (fpv_featureType (x_featurePlanVersion best)))
               (fpv_usageMode (x_featurePlanVersion best)) None)"
    and md: "e_metadata ent =
             Some (winningGrantMetadata
                (winningGrantOf grants best (mergeGrants (map toSnapshot (best # rest))
                   (Some (fpv_featureType (x_featurePlanVersion best)))
                   (fpv_usageMode (x_featurePlanVersion best)) None))
                (mergeOverageStrategy (e_mergingPolicy ent) grants
                   (winningGrantOf grants best (mergeGrants (map toSnapshot (best # rest))
                     (Some (fpv_featureType (x_featurePlanVersion best)))
                     (fpv_usageMode (x_featurePlanVersion best)) None))))"
    by blast
  let ?merged = "mergeGrants (map toSnapshot (best # rest))
               (Some (fpv_featureType (x_featurePlanVersion best)))
               (fpv_usageMode (x_featurePlanVersion best)) None"
  have sets: "set (best # rest) = set grants" using srt by (metis set_sort)
  have ne: "map toSnapshot (best # rest) \<noteq> []" by simp
  from mergeGrants_kept [OF ne] have k: "m_grants ?merged \<noteq> []"
    "set (m_grants ?merged) \<subseteq> set (map toSnapshot (best # rest))" by blast+
  then obtain kept others where ko: "m_grants ?merged = kept # others"
    by (cases "m_grants ?merged") auto
  with k(2) have "kept \<in> toSnapshot ` set grants" using sets by auto
  from winningGrantOf_found [OF ko this, of best] gr ko md
  show "\<exists>winner kept others md.
            e_grants ent = kept # others
          \<and> find (\<lambda>g. x_id g = g_id kept) grants = Some winner
          \<and> winner \<in> set grants
          \<and> e_metadata ent = Some md
          \<and> md_overageStrategy md =
              Some (mergeOverageStrategy (e_mergingPolicy ent) grants winner)"
    by (simp add: winningGrantMetadata_def Let_def)
qed

lemma compute_AB:
  "\<exists>ent. computeEntitlementState sampleEnv ''proj_1'' ''cus_1'' [fullGrantA, fullGrantB] = Inr ent
     \<and> e_mergingPolicy ent = PolicySum"
  by (simp add: computeEntitlementState_def Let_def fullGrantA_def fullGrantB_def fpvUsage_def
        mergeGrants_def)

text \<open>
  The claim at grants A (\<open>none\<close>) and B (\<open>last-call\<close>) of a usage feature, merged under
  \<open>sum\<close>: the entitlement's strategy is \<open>last-call\<close>.
\<close>

theorem computeEntitlementState_overageStrategy_witness:
  "\<exists>ent md. computeEntitlementState sampleEnv ''proj_1'' ''cus_1'' [fullGrantA, fullGrantB] = Inr ent
     \<and> e_metadata ent = Some md \<and> md_overageStrategy md = Some OverageLastCall"
proof -
  from compute_AB obtain ent where
    ent: "computeEntitlementState sampleEnv ''proj_1'' ''cus_1'' [fullGrantA, fullGrantB] = Inr ent"
    and pol: "e_mergingPolicy ent = PolicySum" by blast
  note inst = computeEntitlementState_overageStrategy
    [of "[fullGrantA, fullGrantB]" sampleEnv "''proj_1''" "''cus_1''"]
  from inst ent obtain winner md where
    md: "e_metadata ent = Some md"
        "md_overageStrategy md = Some (mergeOverageStrategy (e_mergingPolicy ent)
           [fullGrantA, fullGrantB] winner)"
    by blast
  from inst have "mergeOverageStrategy PolicySum [fullGrantA, fullGrantB] winner = OverageLastCall"
    by (simp add: grantOverageStrategy_def fullGrantA_def fullGrantB_def fpvUsage_def
          metadataWith_def)
  with md pol ent show ?thesis by simp
qed

section \<open>The over-threshold fraction of the usage meter\<close>

text \<open>
  Claim C8 does not hold on the code. \<open>getUsageMeter\<close> defaults a missing
  \<open>notifyUsageThreshold\<close> to 95, but the resolver has already written its own default,
  90, into the metadata of every entitlement it computes: for a grant without
  metadata the entitlement reaches the usage meter with threshold 90/100, not 95/100.
\<close>

theorem resolver_default_threshold_is_90:
  "\<exists>ent. computeEntitlementState sampleEnv ''proj_1'' ''cus_1'' [plainGrant] = Inr ent
     \<and> threshold (getUsageMeterConfig ent) = 90 / 100
     \<and> threshold (getUsageMeterConfig ent) \<noteq> 95 / 100"
  by (simp add: computeEntitlementState_def Let_def plainGrant_def fpvUsage_def
        mergeGrants_def getUsageMeterConfig_def winningGrantMetadata_def winningGrantOf_def
        sortByPriority_def toSnapshot_def)

section \<open>Properties of \<open>reconcileFeatureUsage\<close>\<close>

lemma reconcileSkip_None_sum:
  "reconcileSkip env state now w = None \<Longrightarrow>
     behavior (AGGREGATION_CONFIG (e_aggregationMethod state)) = BehaviorSum
     \<and> e_featureType state \<noteq> Flat"
  by (auto simp: reconcileSkip_def Let_def split: if_splits)

lemma heap_appendLog [simp]: "heap (appendLog w e) = heap w"
  and storage_appendLog [simp]: "storage (appendLog w e) = storage w"
  and logs_appendLog [simp]: "logs (appendLog w e) = logs w @ [e]"
  by (simp_all add: appendLog_def)

lemma reconcile_reached:
  assumes "reconcileSkip env state now w = None"
    and "storage_get (storage w) (e_customerId state) (e_projectId state) (e_featureSlug state)
           = Inr (Some entitlementState)"
    and "getFeaturesUsageCursor env (reconcileQuery env state now w) = Inr res"
  shows "reconcileFeatureUsage env state now w = applyDrift env state now res entitlementState w"
  using assms by (simp add: reconcileFeatureUsage_def Let_def)

lemma applyDrift_within:
  assumes "behavior (AGGREGATION_CONFIG (e_aggregationMethod state)) = BehaviorSum"
    and "\<bar>analyticsUsage res - snapshotUsage (heap w (meter state))\<bar> \<le> MAX_DRIFT"
  shows "applyDrift env state now res es w =
           persistMeter (meter state) es
             ((heap w)(meter state := (heap w (meter state))
                \<lparr>lastReconciledId := analyticsLastRecordId res (ulid env (watermarkOf now))\<rparr>)) w"
proof -
  have "\<not> \<bar>analyticsUsage res - snapshotUsage (heap w (meter state))\<bar> > MAX_DRIFT"
    using assms(2) by simp
  then show ?thesis
    using assms(1) by (simp add: applyDrift_def Let_def)
qed

lemma reconcileSkip_storage [simp]:
  "reconcileSkip env state now (w\<lparr>storage := st\<rparr>) = reconcileSkip env state now w"
  by (simp add: reconcileSkip_def)

lemma reconcileQuery_storage [simp]:
  "reconcileQuery env state now (w\<lparr>storage := st\<rparr>) = reconcileQuery env state now w"
  by (simp add: reconcileQuery_def)

lemma storage_get_fault_free:
  "storage_get st c p f = Inr found \<Longrightarrow> st_getFault st = None"
  by (simp add: storage_get_def split: option.splits)

lemma sample_skip:
  "reconcileSkip (sampleServiceEnv a) sampleMemoryState 1000000 sampleWorld = None"
  by (simp add: reconcileSkip_def sampleServiceEnv_def sampleMemoryState_def sampleWorld_def
        Let_def cycleWindowAt_def reconcileEffectiveAt_def watermarkOf_def)

lemma sample_get:
  "storage_get (storage sampleWorld) (e_customerId sampleMemoryState)
     (e_projectId sampleMemoryState) (e_featureSlug sampleMemoryState)
     = Inr (Some sampleStoredState)"
  by (simp add: storage_get_def sampleWorld_def sampleMemoryState_def makeKey_def)

lemma sample_query:
  "getFeaturesUsageCursor (sampleServiceEnv a)
     (reconcileQuery (sampleServiceEnv a) sampleMemoryState 1000000 sampleWorld)
     = Inr \<lparr>r_usage = Some a, r_lastRecordId = Some ''01HR''\<rparr>"
  by (simp add: sampleServiceEnv_def)

text \<open>
  Claim C1. For a reconciliation of a sum-behavior, non-flat entitlement, if the
  absolute drift between the analytics usage over the cursor range and the meter's
  snapshot usage at the last reconciliation exceeds \<open>MAX_DRIFT\<close> (1000 units), the
  reconciler changes no meter object and nothing in storage (usage, snapshotUsage and
  lastReconciledId are as before); and when the run passes the skip checks and finds
  the state in storage, so that the drift is computed, what it logs is the error
  \<open>Drift too large for sum\<close>.
\<close>

theorem reconcile_drift_too_large:
  assumes "getFeaturesUsageCursor env (reconcileQuery env state now w) = Inr res"
    and "\<bar>analyticsUsage res - snapshotUsage (heap w (meter state))\<bar> > MAX_DRIFT"
    and "behavior (AGGREGATION_CONFIG (e_aggregationMethod state)) = BehaviorSum"
    and "e_featureType state \<noteq> Flat"
  shows "heap (reconcileFeatureUsage env state now w) = heap w
       \<and> storage (reconcileFeatureUsage env state now w) = storage w
       \<and> (reconcileSkip env state now w = None
            \<and> (\<exists>entitlementState. storage_get (storage w) (e_customerId state)
                   (e_projectId state) (e_featureSlug state) = Inr (Some entitlementState))
          \<longrightarrow> logs (reconcileFeatureUsage env state now w)
                = logs w @ [LogError ''Drift too large for sum''])"
proof -
  have drift: "\<And>es. applyDrift env state now res es w
                 = appendLog w (LogError ''Drift too large for sum'')"
    using assms(2,3) by (simp add: applyDrift_def Let_def)
  have unchanged: "heap (reconcileFeatureUsage env state now w) = heap w
       \<and> storage (reconcileFeatureUsage env state now w) = storage w"
    using assms(1) drift
    by (simp add: reconcileFeatureUsage_def Let_def split: option.splits sum.splits)
  have logged: "reconcileSkip env state now w = None
            \<and> (\<exists>entitlementState. storage_get (storage w) (e_customerId state)
                   (e_projectId state) (e_featureSlug state) = Inr (Some entitlementState))
          \<longrightarrow> logs (reconcileFeatureUsage env state now w)
                = logs w @ [LogError ''Drift too large for sum'']"
    using assms(1) drift by (auto simp: reconcileFeatureUsage_def Let_def)
  from unchanged logged show ?thesis by blast
qed

text \<open>The claim at an analytics total of 2030 against a snapshot of 30: a drift of 2000.\<close>

theorem reconcile_drift_too_large_witness:
  "heap (reconcileFeatureUsage (sampleServiceEnv 2030) sampleMemoryState 1000000 sampleWorld)
     = heap sampleWorld
   \<and> storage (reconcileFeatureUsage (sampleServiceEnv 2030) sampleMemoryState 1000000 sampleWorld)
     = storage sampleWorld
   \<and> logs (reconcileFeatureUsage (sampleServiceEnv 2030) sampleMemoryState 1000000 sampleWorld)
     = [LogError ''Drift too large for sum'']"
proof -
  have d: "\<bar>analyticsUsage \<lparr>r_usage = Some 2030, r_lastRecordId = Some ''01HR''\<rparr>
             - snapshotUsage (heap sampleWorld (meter sampleMemoryState))\<bar> > MAX_DRIFT"
    by (simp add: analyticsUsage_def sampleWorld_def MAX_DRIFT_def)
  have b: "behavior (AGGREGATION_CONFIG (e_aggregationMethod sampleMemoryState)) = BehaviorSum"
    by (simp add: sampleMemoryState_def)
  have f: "e_featureType sampleMemoryState \<noteq> Flat" by (simp add: sampleMemoryState_def)
  from reconcile_drift_too_large [OF sample_query d b f] sample_skip [of 2030] sample_get
  show ?thesis by (simp add: sampleWorld_def)
qed

text \<open>
  Claim C2. For a reconciliation of a sum-behavior entitlement that passes all skip
  checks, finds its state in storage, gets an analytics result and has an absolute
  drift of at most \<open>MAX_DRIFT\<close>, the persisted meter has the usage the caller's meter
  had when the reconciliation started (the addition of the drift does not survive) and
  its \<open>lastReconciledId\<close> is the analytics \<open>lastRecordId\<close>, or the watermark ULID when
  analytics returns none or the empty string.
\<close>

theorem reconcile_persists_entry_usage:
  assumes "reconcileSkip env state now w = None"
    and "storage_get (storage w) (e_customerId state) (e_projectId state) (e_featureSlug state)
           = Inr (Some entitlementState)"
    and "getFeaturesUsageCursor env (reconcileQuery env state now w) = Inr res"
    and "\<bar>analyticsUsage res - snapshotUsage (heap w (meter state))\<bar> \<le> MAX_DRIFT"
  shows "\<exists>persisted.
           st_entries (storage (reconcileFeatureUsage env state now w))
             (makeKey (e_customerId entitlementState) (e_projectId entitlementState)
                (e_featureSlug entitlementState)) = Some persisted
         \<and> usage (meter persisted) = usage (heap w (meter state))
         \<and> lastReconciledId (meter persisted) =
             (case r_lastRecordId res of
                None \<Rightarrow> ulid env (now - 300000)
              | Some rid \<Rightarrow> if rid = '''' then ulid env (now - 300000) else rid)"
proof -
  from reconcileSkip_None_sum [OF assms(1)]
  have sum: "behavior (AGGREGATION_CONFIG (e_aggregationMethod state)) = BehaviorSum" by blast
  show ?thesis
    unfolding reconcile_reached [OF assms(1,2,3)] applyDrift_within [OF sum assms(4)]
    by (simp add: persistMeter_def storage_set_def analyticsLastRecordId_def watermarkOf_def)
qed

text \<open>The claim at an analytics total of 35 against a snapshot of 30: a drift of 5.\<close>

theorem reconcile_persists_entry_usage_witness:
  "\<exists>persisted.
     st_entries (storage (reconcileFeatureUsage (sampleServiceEnv 35) sampleMemoryState 1000000
                            sampleWorld)) ''proj_1:cus_1:api_calls'' = Some persisted
     \<and> usage (meter persisted) = 40
     \<and> lastReconciledId (meter persisted) = ''01HR''"
proof -
  have d: "\<bar>analyticsUsage \<lparr>r_usage = Some 35, r_lastRecordId = Some ''01HR''\<rparr>
             - snapshotUsage (heap sampleWorld (meter sampleMemoryState))\<bar> \<le> MAX_DRIFT"
    by (simp add: analyticsUsage_def sampleWorld_def MAX_DRIFT_def)
  from reconcile_persists_entry_usage [OF sample_skip sample_get sample_query d]
  show ?thesis by (simp add: sampleStoredState_def makeKey_def sampleWorld_def)
qed

text \<open>
  Claim C10. For a reconciliation that reaches the persist step, the meter object
  that is assigned is the one the caller's state refers to (no other object changes),
  the state persisted is the refetched state with its meter replaced by that object,
  and its usage is the one the object had at entry. The meter of the refetched state
  is discarded: when the state is stored under its own key, the outcome is the same
  whatever meter the stored state carries.
\<close>

theorem reconcile_persists_callers_meter:
  assumes "reconcileSkip env state now w = None"
    and "storage_get (storage w) (e_customerId state) (e_projectId state) (e_featureSlug state)
           = Inr (Some entitlementState)"
    and "getFeaturesUsageCursor env (reconcileQuery env state now w) = Inr res"
    and "\<bar>analyticsUsage res - snapshotUsage (heap w (meter state))\<bar> \<le> MAX_DRIFT"
  shows "heap (reconcileFeatureUsage env state now w) (meter state) =
           (heap w (meter state))
             \<lparr>lastReconciledId := analyticsLastRecordId res (ulid env (watermarkOf now))\<rparr>
       \<and> (\<forall>r. r \<noteq> meter state \<longrightarrow> heap (reconcileFeatureUsage env state now w) r = heap w r)
       \<and> st_entries (storage (reconcileFeatureUsage env state now w))
             (makeKey (e_customerId entitlementState) (e_projectId entitlementState)
                (e_featureSlug entitlementState))
           = Some (entitlementState
                    \<lparr>meter := heap (reconcileFeatureUsage env state now w) (meter state)\<rparr>)
       \<and> usage (heap (reconcileFeatureUsage env state now w) (meter state))
           = usage (heap w (meter state))
       \<and> (e_customerId entitlementState = e_customerId state
            \<and> e_projectId entitlementState = e_projectId state
            \<and> e_featureSlug entitlementState = e_featureSlug state
          \<longrightarrow> (\<forall>storedMeter.
                 reconcileFeatureUsage env state now
                   (w\<lparr>storage :=
                        storage_set (storage w) (entitlementState\<lparr>meter := storedMeter\<rparr>)\<rparr>)
                 = reconcileFeatureUsage env state now w))"
proof -
  from reconcileSkip_None_sum [OF assms(1)]
  have sum: "behavior (AGGREGATION_CONFIG (e_aggregationMethod state)) = BehaviorSum" by blast
  let ?h = "(heap w)(meter state := (heap w (meter state))
                \<lparr>lastReconciledId := analyticsLastRecordId res (ulid env (watermarkOf now))\<rparr>)"
  have run: "reconcileFeatureUsage env state now w
               = persistMeter (meter state) entitlementState ?h w"
    unfolding reconcile_reached [OF assms(1,2,3)] applyDrift_within [OF sum assms(4)] ..
  have indep: "reconcileFeatureUsage env state now
                   (w\<lparr>storage :=
                        storage_set (storage w) (entitlementState\<lparr>meter := storedMeter\<rparr>)\<rparr>)
                 = reconcileFeatureUsage env state now w"
    if ids: "e_customerId entitlementState = e_customerId state
            \<and> e_projectId entitlementState = e_projectId state
            \<and> e_featureSlug entitlementState = e_featureSlug state"
    for storedMeter
  proof -
    let ?w2 = "w\<lparr>storage :=
                  storage_set (storage w) (entitlementState\<lparr>meter := storedMeter\<rparr>)\<rparr>"
    have skip2: "reconcileSkip env state now ?w2 = None" using assms(1) by simp
    have get2: "storage_get (storage ?w2) (e_customerId state) (e_projectId state)
                  (e_featureSlug state) = Inr (Some (entitlementState\<lparr>meter := storedMeter\<rparr>))"
      using storage_get_fault_free [OF assms(2)] ids
      by (simp add: storage_get_def storage_set_def)
    have q2: "getFeaturesUsageCursor env (reconcileQuery env state now ?w2) = Inr res"
      using assms(3) by simp
    have d2: "\<bar>analyticsUsage res - snapshotUsage (heap ?w2 (meter state))\<bar> \<le> MAX_DRIFT"
      using assms(4) by simp
    show ?thesis
      unfolding run reconcile_reached [OF skip2 get2 q2] applyDrift_within [OF sum d2]
      by (simp add: persistMeter_def storage_set_def)
  qed
  show ?thesis
    unfolding run using indep [unfolded run]
    by (simp add: persistMeter_def storage_set_def)
qed

text \<open>
  The claim in the sample world: the stored state has usage 55, the caller's meter 40;
  the persisted state has usage 40.
\<close>

theorem reconcile_persists_callers_meter_witness:
  "usage (meter sampleStoredState) = 55
   \<and> usage (heap sampleWorld (meter sampleMemoryState)) = 40
   \<and> st_entries (storage (reconcileFeatureUsage (sampleServiceEnv 35) sampleMemoryState 1000000
                            sampleWorld)) ''proj_1:cus_1:api_calls''
       = Some (sampleStoredState
                 \<lparr>meter := \<lparr>usage = 40, snapshotUsage = 30, lastReconciledId = ''01HR'',
                             lastUpdated = 800000, lastCycleStart = None\<rparr>\<rparr>)"
proof -
  have d: "\<bar>analyticsUsage \<lparr>r_usage = Some 35, r_lastRecordId = Some ''01HR''\<rparr>
             - snapshotUsage (heap sampleWorld (meter sampleMemoryState))\<bar> \<le> MAX_DRIFT"
    by (simp add: analyticsUsage_def sampleWorld_def MAX_DRIFT_def)
  from reconcile_persists_callers_meter [OF sample_skip sample_get sample_query d]
  have "heap (reconcileFeatureUsage (sampleServiceEnv 35) sampleMemoryState 1000000 sampleWorld)
          (meter sampleMemoryState)
        = \<lparr>usage = 40, snapshotUsage = 30, lastReconciledId = ''01HR'',
                             lastUpdated = 800000, lastCycleStart = None\<rparr>"
    and "st_entries (storage (reconcileFeatureUsage (sampleServiceEnv 35) sampleMemoryState
            1000000 sampleWorld)) ''proj_1:cus_1:api_calls''
         = Some (sampleStoredState\<lparr>meter := heap (reconcileFeatureUsage (sampleServiceEnv 35)
               sampleMemoryState 1000000 sampleWorld) (meter sampleMemoryState)\<rparr>)"
    by (simp_all add: sampleWorld_def analyticsLastRecordId_def sampleStoredState_def makeKey_def)
  then show ?thesis by (simp add: sampleStoredState_def sampleWorld_def)
qed

section \<open>Properties of \<open>reportUsage\<close>\<close>

lemma hasIdempotenceKey_seen:
  "k \<in> st_idempotenceKeys st \<Longrightarrow> hasIdempotenceKey st k = (True, st)"
  by (simp add: hasIdempotenceKey_def insert_absorb)

lemma reportUsage_key_seen:
  assumes "validateEntitlementState state (rq_timestamp params) = Inr validatedState"
    and "rq_idempotenceKey params \<in> st_idempotenceKeys (a_storage actor)"
  shows "reportUsage ops env params (Inr (Some state)) actor =
           (\<lparr>rs_allowed = True, rs_remaining = None,
             rs_message = Some ''Usage already recorded (idempotent)'',
             rs_deniedReason = None,
             rs_usage = usage (um_toPersist ops (getUsageMeter ops validatedState)),
             rs_limit = e_limit validatedState,
             rs_cost = cr_cost (calculateCostAndRate env validatedState
                          (usage (um_toPersist ops (getUsageMeter ops validatedState)))),
             rs_notifiedOverLimit = Some False\<rparr>,
            \<lparr>a_storage = a_storage actor,
             a_effects = a_effects actor @ [EffHasIdempotenceKey (rq_idempotenceKey params)]\<rparr>)"
  using assms by (simp add: reportUsage_def hasIdempotenceKey_seen Let_def)

lemma st_idempotenceKeys_storage_set [simp]:
  "st_idempotenceKeys (storage_set st x) = st_idempotenceKeys st"
  by (simp add: storage_set_def)

lemma st_idempotenceKeys_insertUsageRecord [simp]:
  "st_idempotenceKeys (insertUsageRecord st x) = st_idempotenceKeys st"
  by (simp add: insertUsageRecord_def)

lemma reportUsage_records_key:
  assumes "validateEntitlementState state (rq_timestamp params) = Inr validatedState"
  shows "rq_idempotenceKey params
           \<in> st_idempotenceKeys (a_storage (snd (reportUsage ops env params (Inr (Some state)) actor)))"
  using assms
  by (simp add: reportUsage_def hasIdempotenceKey_def Let_def split: prod.splits)

lemma activeGrants_stored: "activeGrants sampleStoredState 300 = [grantB, grantA]"
  by (simp add: activeGrants_def sampleStoredState_def isGrantActive_def sortByPriority_def
      grantA_def grantB_def)

lemma validate_stored:
  "validateEntitlementState sampleStoredState (rq_timestamp sampleRequest) = Inr sampleStoredState"
  by (simp add: validateEntitlementState_def sampleRequest_def activeGrants_stored)
     (simp add: sampleStoredState_def mergeGrants_sample)

lemma validate_stored_after:
  "validateEntitlementState sampleStoredStateAfter (rq_timestamp sampleRequest)
     = Inr sampleStoredStateAfter"
proof -
  have "activeGrants sampleStoredStateAfter 300 = [grantB, grantA]"
    by (simp add: activeGrants_def sampleStoredStateAfter_def sampleStoredState_def
        isGrantActive_def sortByPriority_def grantA_def grantB_def)
  then show ?thesis
    by (simp add: validateEntitlementState_def sampleRequest_def)
       (simp add: sampleStoredStateAfter_def sampleStoredState_def mergeGrants_sample)
qed

lemma st_entries_insertUsageRecord [simp]:
  "st_entries (insertUsageRecord st r) = st_entries st"
  by (simp add: insertUsageRecord_def)

lemma first_report:
  "rs_usage (fst (reportUsage sampleMeterOps sampleReportEnv sampleRequest
       (Inr (Some sampleStoredState)) sampleActor)) = 60
   \<and> st_entries (a_storage (snd (reportUsage sampleMeterOps sampleReportEnv sampleRequest
       (Inr (Some sampleStoredState)) sampleActor))) ''proj_1:cus_1:api_calls''
       = Some sampleStoredStateAfter"
  using validate_stored
  by (simp add: reportUsage_def hasIdempotenceKey_def sampleActor_def sampleWorld_def
        sampleRequest_def Let_def getUsageMeter_def sampleMeterOps_def
        getUsageMeterConfig_def buildReportUsageResponse_def storage_set_def
        sampleStoredStateAfter_def)
     (simp add: sampleStoredState_def makeKey_def)

text \<open>
  Claim C3. For a \<open>reportUsage\<close> request that finds a valid entitlement state and whose
  idempotence key the storage has already observed, the call returns \<open>allowed = true\<close>
  with the usage of the current meter and the cost computed for it, and the storage is
  left as it was: no usage record is inserted and the state is not written back; the
  only call made is \<open>hasIdempotenceKey\<close>, so \<open>consume\<close> is not invoked. Hence after any
  first call that reached the key check, a second call with the same key is allowed
  and leaves the storage as the first call left it.
\<close>

theorem reportUsage_idempotent:
  assumes "validateEntitlementState state (rq_timestamp params) = Inr validatedState"
  shows "(rq_idempotenceKey params \<in> st_idempotenceKeys (a_storage actor) \<longrightarrow>
            rs_allowed (fst (reportUsage ops env params (Inr (Some state)) actor))
          \<and> rs_usage (fst (reportUsage ops env params (Inr (Some state)) actor))
              = usage (um_toPersist ops (getUsageMeter ops validatedState))
          \<and> rs_cost (fst (reportUsage ops env params (Inr (Some state)) actor))
              = cr_cost (calculateCostAndRate env validatedState
                   (usage (um_toPersist ops (getUsageMeter ops validatedState))))
          \<and> a_storage (snd (reportUsage ops env params (Inr (Some state)) actor))
              = a_storage actor
          \<and> a_effects (snd (reportUsage ops env params (Inr (Some state)) actor))
              = a_effects actor @ [EffHasIdempotenceKey (rq_idempotenceKey params)])
       \<and> (\<forall>params2 state2 validated2.
             rq_idempotenceKey params2 = rq_idempotenceKey params
             \<and> validateEntitlementState state2 (rq_timestamp params2) = Inr validated2
             \<longrightarrow> rs_allowed (fst (reportUsage ops env params2 (Inr (Some state2))
                     (snd (reportUsage ops env params (Inr (Some state)) actor))))
               \<and> a_storage (snd (reportUsage ops env params2 (Inr (Some state2))
                     (snd (reportUsage ops env params (Inr (Some state)) actor))))
                  = a_storage (snd (reportUsage ops env params (Inr (Some state)) actor))
               \<and> a_effects (snd (reportUsage ops env params2 (Inr (Some state2))
                     (snd (reportUsage ops env params (Inr (Some state)) actor))))
                  = a_effects (snd (reportUsage ops env params (Inr (Some state)) actor))
                      @ [EffHasIdempotenceKey (rq_idempotenceKey params)])"
proof (intro conjI impI allI)
  assume seen: "rq_idempotenceKey params \<in> st_idempotenceKeys (a_storage actor)"
  note once = reportUsage_key_seen [OF assms seen, where ops=ops and env=env]
  show "rs_allowed (fst (reportUsage ops env params (Inr (Some state)) actor))"
    and "rs_usage (fst (reportUsage ops env params (Inr (Some state)) actor))
              = usage (um_toPersist ops (getUsageMeter ops validatedState))"
    and "rs_cost (fst (reportUsage ops env params (Inr (Some state)) actor))
              = cr_cost (calculateCostAndRate env validatedState
                   (usage (um_toPersist ops (getUsageMeter ops validatedState))))"
    and "a_storage (snd (reportUsage ops env params (Inr (Some state)) actor))
              = a_storage actor"
    and "a_effects (snd (reportUsage ops env params (Inr (Some state)) actor))
              = a_effects actor @ [EffHasIdempotenceKey (rq_idempotenceKey params)]"
    unfolding once by simp_all
next
  fix params2 :: ReportUsageRequest
    and state2 validated2 :: "MeterState EntitlementState"
  assume h: "rq_idempotenceKey params2 = rq_idempotenceKey params
             \<and> validateEntitlementState state2 (rq_timestamp params2) = Inr validated2"
  let ?a1 = "snd (reportUsage ops env params (Inr (Some state)) actor)"
  from reportUsage_records_key [OF assms, of ops env actor] h
  have seen: "rq_idempotenceKey params2 \<in> st_idempotenceKeys (a_storage ?a1)" by simp
  from h have v2: "validateEntitlementState state2 (rq_timestamp params2) = Inr validated2" by simp
  note twice = reportUsage_key_seen [OF v2 seen, where ops=ops and env=env]
  show "rs_allowed (fst (reportUsage ops env params2 (Inr (Some state2)) ?a1))"
    and "a_storage (snd (reportUsage ops env params2 (Inr (Some state2)) ?a1)) = a_storage ?a1"
    and "a_effects (snd (reportUsage ops env params2 (Inr (Some state2)) ?a1))
           = a_effects ?a1 @ [EffHasIdempotenceKey (rq_idempotenceKey params)]"
    unfolding twice using h by simp_all
qed

text \<open>
  The claim on the sample actor: the first report of 5 units raises the usage from 55
  to 60; the second report with the same key returns usage 60 and leaves the storage
  unchanged.
\<close>

theorem reportUsage_idempotent_witness:
  "rs_usage (fst (reportUsage sampleMeterOps sampleReportEnv sampleRequest
       (Inr (Some sampleStoredState)) sampleActor)) = 60
   \<and> rs_allowed (fst (reportUsage sampleMeterOps sampleReportEnv sampleRequest
         (Inr (Some sampleStoredStateAfter))
         (snd (reportUsage sampleMeterOps sampleReportEnv sampleRequest
                 (Inr (Some sampleStoredState)) sampleActor))))
   \<and> rs_usage (fst (reportUsage sampleMeterOps sampleReportEnv sampleRequest
         (Inr (Some sampleStoredStateAfter))
         (snd (reportUsage sampleMeterOps sampleReportEnv sampleRequest
                 (Inr (Some sampleStoredState)) sampleActor)))) = 60
   \<and> a_storage (snd (reportUsage sampleMeterOps sampleReportEnv sampleRequest
         (Inr (Some sampleStoredStateAfter))
         (snd (reportUsage sampleMeterOps sampleReportEnv sampleRequest
                 (Inr (Some sampleStoredState)) sampleActor))))
       = a_storage (snd (reportUsage sampleMeterOps sampleReportEnv sampleRequest
                 (Inr (Some sampleStoredState)) sampleActor))"
proof -
  let ?a1 = "snd (reportUsage sampleMeterOps sampleReportEnv sampleRequest
                 (Inr (Some sampleStoredState)) sampleActor)"
  note firstCall = reportUsage_idempotent [OF validate_stored, where ops = sampleMeterOps
      and env = sampleReportEnv and actor = sampleActor]
  from firstCall validate_stored_after
  have second: "rs_allowed (fst (reportUsage sampleMeterOps sampleReportEnv sampleRequest
         (Inr (Some sampleStoredStateAfter)) ?a1))"
     "a_storage (snd (reportUsage sampleMeterOps sampleReportEnv sampleRequest
         (Inr (Some sampleStoredStateAfter)) ?a1)) = a_storage ?a1"
     "a_effects (snd (reportUsage sampleMeterOps sampleReportEnv sampleRequest
         (Inr (Some sampleStoredStateAfter)) ?a1))
        = a_effects ?a1 @ [EffHasIdempotenceKey (rq_idempotenceKey sampleRequest)]"
    by blast+
  have seen: "rq_idempotenceKey sampleRequest \<in> st_idempotenceKeys (a_storage ?a1)"
    using validate_stored
    by (simp add: reportUsage_def hasIdempotenceKey_def Let_def split: prod.splits)
  note secondCall = reportUsage_idempotent [OF validate_stored_after, where ops = sampleMeterOps
      and env = sampleReportEnv and actor = ?a1]
  from secondCall seen
  have "rs_usage (fst (reportUsage sampleMeterOps sampleReportEnv sampleRequest
         (Inr (Some sampleStoredStateAfter)) ?a1))
        = usage (um_toPersist sampleMeterOps (getUsageMeter sampleMeterOps sampleStoredStateAfter))"
    by blast
  then have u: "rs_usage (fst (reportUsage sampleMeterOps sampleReportEnv sampleRequest
         (Inr (Some sampleStoredStateAfter)) ?a1)) = 60"
    by (simp add: getUsageMeter_def sampleMeterOps_def sampleStoredStateAfter_def)
  from first_report second u show ?thesis by blast
qed

section \<open>Properties of \<open>resetEntitlements\<close>\<close>

lemma getActive_stale:
  "getActiveEntitlements sampleResetEnv ''cus_1'' ''proj_1'' staleNegativeBackend =
     (Inr [toMinimal sampleComputedEntitlement],
      staleNegativeBackend
        \<lparr>db_entitlements := [sampleComputedEntitlement],
         cache_customerEntitlements :=
           [''proj_1:cus_1'' \<mapsto> [toMinimal sampleComputedEntitlement]]\<rparr>)"
  by (simp add: getActiveEntitlements_def staleNegativeBackend_def sampleResetEnv_def
        getActiveEntitlementsFromDB_def Let_def)

text \<open>
  Claim C9 does not hold on the code. \<open>resetEntitlements\<close> removes from the namespace
  \<open>negativeEntitlements\<close> the key \<open>negative:proj:cust:all\<close> only; the entries that
  \<open>getActiveEntitlement\<close> writes per feature, \<open>negative:proj:cust:feat\<close>, stay. On the
  stale back end the reset recomputes an entitlement for \<open>api_calls\<close>, clears the list
  cache and the rows, and leaves the negative entry of \<open>api_calls\<close> in place.
\<close>

theorem resetEntitlements_keeps_negative_entry:
  "cache_negativeEntitlements
     (resetEntitlements sampleResetEnv ''cus_1'' ''proj_1'' staleNegativeBackend)
     ''negative:proj_1:cus_1:api_calls'' = Some True
   \<and> cache_customerEntitlements
     (resetEntitlements sampleResetEnv ''cus_1'' ''proj_1'' staleNegativeBackend)
     ''proj_1:cus_1'' = None
   \<and> db_entitlements
     (resetEntitlements sampleResetEnv ''cus_1'' ''proj_1'' staleNegativeBackend) = []"
  by (simp add: resetEntitlements_def getActive_stale Let_def removeFeatureCache_def
        invalidateAccessControlList_def toMinimal_def)
     (simp add: staleNegativeBackend_def sampleComputedEntitlement_def)

end
